theory Spec2Isabelle
  imports Complex_Main
begin

section \<open>Numbers\<close>

text \<open>
  Every number of \<^verbatim>\<open>utils.py\<close> is a Python or numpy float.  The model keeps the
  special values of IEEE arithmetic, which the program can produce and which decide
  several of its branches (a comparison with NaN is false, a division by zero gives an
  infinity or NaN), and idealises the finite part: a finite float is a real number,
  finite arithmetic is exact and does not overflow, and the two zeros are one.
\<close>

datatype fl = Fin real | PInf | NInf | NaN

fun isna :: "fl \<Rightarrow> bool" where
  "isna NaN = True"
| "isna _ = False"

fun fneg :: "fl \<Rightarrow> fl" where
  "fneg (Fin a) = Fin (- a)"
| "fneg PInf = NInf"
| "fneg NInf = PInf"
| "fneg NaN = NaN"

fun fabs :: "fl \<Rightarrow> fl" where
  "fabs (Fin a) = Fin \<bar>a\<bar>"
| "fabs PInf = PInf"
| "fabs NInf = PInf"
| "fabs NaN = NaN"

fun fadd :: "fl \<Rightarrow> fl \<Rightarrow> fl" where
  "fadd (Fin a) (Fin b) = Fin (a + b)"
| "fadd NaN _ = NaN"
| "fadd _ NaN = NaN"
| "fadd PInf NInf = NaN"
| "fadd NInf PInf = NaN"
| "fadd PInf _ = PInf"
| "fadd _ PInf = PInf"
| "fadd NInf _ = NInf"
| "fadd _ NInf = NInf"

definition fsub :: "fl \<Rightarrow> fl \<Rightarrow> fl" where
  "fsub x y = fadd x (fneg y)"

text \<open>The infinity with the sign of a real number, NaN for zero.\<close>

definition signed_inf :: "real \<Rightarrow> fl" where
  "signed_inf a = (if a = 0 then NaN else if 0 < a then PInf else NInf)"

fun fmul :: "fl \<Rightarrow> fl \<Rightarrow> fl" where
  "fmul (Fin a) (Fin b) = Fin (a * b)"
| "fmul NaN _ = NaN"
| "fmul _ NaN = NaN"
| "fmul (Fin a) PInf = signed_inf a"
| "fmul (Fin a) NInf = signed_inf (- a)"
| "fmul PInf (Fin b) = signed_inf b"
| "fmul NInf (Fin b) = signed_inf (- b)"
| "fmul PInf PInf = PInf"
| "fmul NInf NInf = PInf"
| "fmul PInf NInf = NInf"
| "fmul NInf PInf = NInf"

text \<open>
  Division as numpy and pandas do it: a finite number over zero is an infinity with the
  sign of the numerator, zero over zero is NaN, and nothing is raised.
\<close>

fun fdiv :: "fl \<Rightarrow> fl \<Rightarrow> fl" where
  "fdiv (Fin a) (Fin b) = (if b = 0 then signed_inf a else Fin (a / b))"
| "fdiv NaN _ = NaN"
| "fdiv _ NaN = NaN"
| "fdiv (Fin a) _ = Fin 0"
| "fdiv PInf (Fin b) = (if 0 \<le> b then PInf else NInf)"
| "fdiv NInf (Fin b) = (if 0 \<le> b then NInf else PInf)"
| "fdiv _ _ = NaN"

text \<open>\<^verbatim>\<open>np.log\<close> and \<^verbatim>\<open>np.exp\<close>.\<close>

fun flog :: "fl \<Rightarrow> fl" where
  "flog (Fin a) = (if 0 < a then Fin (ln a) else if a = 0 then NInf else NaN)"
| "flog PInf = PInf"
| "flog NInf = NaN"
| "flog NaN = NaN"

fun fexp :: "fl \<Rightarrow> fl" where
  "fexp (Fin a) = Fin (exp a)"
| "fexp PInf = PInf"
| "fexp NInf = Fin 0"
| "fexp NaN = NaN"

text \<open>Comparisons: each is false as soon as one side is NaN.\<close>

fun fle :: "fl \<Rightarrow> fl \<Rightarrow> bool" where
  "fle (Fin a) (Fin b) = (a \<le> b)"
| "fle NaN _ = False"
| "fle _ NaN = False"
| "fle NInf _ = True"
| "fle _ PInf = True"
| "fle _ _ = False"

fun flt :: "fl \<Rightarrow> fl \<Rightarrow> bool" where
  "flt (Fin a) (Fin b) = (a < b)"
| "flt NaN _ = False"
| "flt _ NaN = False"
| "flt PInf _ = False"
| "flt _ NInf = False"
| "flt _ _ = True"

definition fgt :: "fl \<Rightarrow> fl \<Rightarrow> bool" where
  "fgt x y = flt y x"

text \<open>
  Rounding to \<open>n\<close> decimals (\<^verbatim>\<open>round(x, n)\<close>, \<^verbatim>\<open>.round(n)\<close>): to the nearest multiple of
  \<open>10\<^sup>-\<^sup>n\<close>, a tie going to the even one; infinities and NaN are returned as they are.
\<close>

definition round_half_even :: "real \<Rightarrow> int" where
  "round_half_even x =
     (let f = \<lfloor>x\<rfloor>; r = x - of_int f
      in if r < 1 / 2 then f else if 1 / 2 < r then f + 1
         else if even f then f else f + 1)"

fun fround :: "nat \<Rightarrow> fl \<Rightarrow> fl" where
  "fround n (Fin a) = Fin (of_int (round_half_even (a * 10 ^ n)) / 10 ^ n)"
| "fround n x = x"

section \<open>Series and tables\<close>

text \<open>
  A pandas Series is the list of its (label, value) pairs in index order.  Assets are
  labelled by strings and dates by their ordinal (\<^verbatim>\<open>date.toordinal()\<close>).
\<close>

type_synonym asset = string
type_synonym date = int
type_synonym 'k series = "('k \<times> fl) list"

text \<open>\<^verbatim>\<open>Series.sum()\<close> and \<^verbatim>\<open>DataFrame.sum(axis=1)\<close> skip NaN; an empty sum is 0.\<close>

fun sum_skipna :: "fl list \<Rightarrow> fl" where
  "sum_skipna [] = Fin 0"
| "sum_skipna (x # xs) = (if isna x then sum_skipna xs else fadd x (sum_skipna xs))"

section \<open>Net balance\<close>

text \<open>
  \<^verbatim>\<open>
  def get_net_balance(balance,reb_cost:float):
      if balance > 0:
          net_balance = round(balance * (1-reb_cost),2)
      else:
          net_balance = 0
      return net_balance
  \<close>
\<close>

definition get_net_balance :: "fl \<Rightarrow> fl \<Rightarrow> fl" where
  "get_net_balance balance reb_cost =
     (if fgt balance (Fin 0) then fround 2 (fmul balance (fsub (Fin 1) reb_cost))
      else Fin 0)"

section \<open>The balance depletion guard\<close>

text \<open>
  \<^verbatim>\<open>
  def check_negative_balance(series):
      if (series <= 0).any():
          first_zero_or_negative = series[series <= 0].index[0]
          series[first_zero_or_negative:] = 0
          return False
      return True
  \<close>
  The function writes into the caller's series and returns a flag, so the model returns
  both: the series as it is after the call, and the flag.  \<^verbatim>\<open>series[label:] = 0\<close> is a
  slice by label: it starts at the first position that carries the label.
\<close>

fun zero_from :: "'k \<Rightarrow> 'k series \<Rightarrow> 'k series" where
  "zero_from l [] = []"
| "zero_from l ((d, v) # xs) =
     (if d = l then (d, Fin 0) # map (\<lambda>(d', v'). (d', Fin 0)) xs
      else (d, v) # zero_from l xs)"

definition check_negative_balance :: "'k series \<Rightarrow> 'k series \<times> bool" where
  "check_negative_balance series =
     (if list_ex (\<lambda>(d, v). fle v (Fin 0)) series then
        let first_zero_or_negative = fst (hd (filter (\<lambda>(d, v). fle v (Fin 0)) series))
        in (zero_from first_zero_or_negative series, False)
      else (series, True))"

section \<open>Tables\<close>

text \<open>
  A DataFrame indexed by date with one column per asset: the column labels, and the rows
  in index order, each with its date and one value per column.
\<close>

record frame =
  columns :: "asset list"
  rows :: "(date \<times> fl list) list"

definition frame_index :: "frame \<Rightarrow> date list" where
  "frame_index df = map fst (rows df)"

definition frame_map :: "(fl \<Rightarrow> fl) \<Rightarrow> frame \<Rightarrow> frame" where
  "frame_map f df = df\<lparr>rows := map (\<lambda>(d, r). (d, map f r)) (rows df)\<rparr>"

text \<open>
  \<^verbatim>\<open>cumsum()\<close> skips NaN: a NaN entry stays NaN in the result and adds nothing to the
  running total of its column.
\<close>

definition cum_out :: "fl \<Rightarrow> fl \<Rightarrow> fl" where
  "cum_out acc x = (if isna x then NaN else fadd acc x)"

definition cum_acc :: "fl \<Rightarrow> fl \<Rightarrow> fl" where
  "cum_acc acc x = (if isna x then acc else fadd acc x)"

fun cumsum_from :: "fl \<Rightarrow> 'k series \<Rightarrow> 'k series" where
  "cumsum_from acc [] = []"
| "cumsum_from acc ((d, x) # xs) = (d, cum_out acc x) # cumsum_from (cum_acc acc x) xs"

definition cumsum :: "'k series \<Rightarrow> 'k series" where
  "cumsum s = cumsum_from (Fin 0) s"

fun cumsum_rows :: "fl list \<Rightarrow> (date \<times> fl list) list \<Rightarrow> (date \<times> fl list) list" where
  "cumsum_rows acc [] = []"
| "cumsum_rows acc ((d, r) # rs) =
     (d, map2 cum_out acc r) # cumsum_rows (map2 cum_acc acc r) rs"

definition frame_cumsum :: "frame \<Rightarrow> frame" where
  "frame_cumsum df =
     df\<lparr>rows := cumsum_rows (replicate (length (columns df)) (Fin 0)) (rows df)\<rparr>"

text \<open>
  \<^verbatim>\<open>pct_change\<close>: each value over the one before it, minus 1; the first entry has no
  value before it and is NaN.  (Older versions of pandas first replace a NaN inside a
  Series by the value before it; the prices are read with \<^verbatim>\<open>fill_method=None\<close>, and a row
  sum is NaN only when infinities of both signs meet, so the model divides the values as
  they are.)
\<close>

definition pct :: "fl \<Rightarrow> fl \<Rightarrow> fl" where
  "pct prev x = fsub (fdiv x prev) (Fin 1)"

fun pct_change_from :: "fl \<Rightarrow> 'k series \<Rightarrow> 'k series" where
  "pct_change_from prev [] = []"
| "pct_change_from prev ((d, x) # xs) = (d, pct prev x) # pct_change_from x xs"

definition pct_change :: "'k series \<Rightarrow> 'k series" where
  "pct_change s = (case s of [] \<Rightarrow> [] | (d, x) # xs \<Rightarrow> (d, NaN) # pct_change_from x xs)"

fun pct_change_rows :: "fl list \<Rightarrow> (date \<times> fl list) list \<Rightarrow> (date \<times> fl list) list" where
  "pct_change_rows prev [] = []"
| "pct_change_rows prev ((d, r) # rs) = (d, map2 pct prev r) # pct_change_rows r rs"

definition frame_pct_change :: "frame \<Rightarrow> frame" where
  "frame_pct_change df =
     df\<lparr>rows := (case rows df of [] \<Rightarrow> []
                  | (d, r) # rs \<Rightarrow> (d, map (\<lambda>x. NaN) r) # pct_change_rows r rs)\<rparr>"

text \<open>\<^verbatim>\<open>DataFrame.dropna()\<close> keeps the rows that hold no NaN.\<close>

definition frame_dropna :: "frame \<Rightarrow> frame" where
  "frame_dropna df = df\<lparr>rows := filter (\<lambda>(d, r). \<not> list_ex isna r) (rows df)\<rparr>"

text \<open>\<^verbatim>\<open>Series.dropna()\<close>.\<close>

definition dropna :: "'k series \<Rightarrow> 'k series" where
  "dropna s = filter (\<lambda>(a, w). \<not> isna w) s"

text \<open>
  \<^verbatim>\<open>df.loc[a : b]\<close> on a chronological date index: the rows dated from \<open>a\<close> to \<open>b\<close>, both
  included.
\<close>

definition loc_slice :: "frame \<Rightarrow> date \<Rightarrow> date \<Rightarrow> frame" where
  "loc_slice df a b = df\<lparr>rows := filter (\<lambda>(d, r). a \<le> d \<and> d \<le> b) (rows df)\<rparr>"

text \<open>
  Reading a label that a Series or a row does not have gives NaN (reindexing);
  \<^verbatim>\<open>df[labels]\<close> raises KeyError when a label is not a column (\<open>None\<close>).
\<close>

definition series_get :: "'k series \<Rightarrow> 'k \<Rightarrow> fl" where
  "series_get s a = (case map_of s a of Some v \<Rightarrow> v | None \<Rightarrow> NaN)"

definition select_columns :: "frame \<Rightarrow> asset list \<Rightarrow> frame option" where
  "select_columns df labels =
     (if list_all (\<lambda>a. a \<in> set (columns df)) labels then
        Some \<lparr>columns = labels,
              rows = map (\<lambda>(d, r). (d, map (series_get (zip (columns df) r)) labels)) (rows df)\<rparr>
      else None)"

text \<open>
  The index on which pandas aligns two labelled objects holds the labels of both.  The
  model lists the labels of the first and then the new ones of the second; pandas may
  sort them, which no value computed below can tell (values are looked up by label, and
  the sums over assets are sums of the same numbers).
\<close>

definition union_index :: "'k list \<Rightarrow> 'k list \<Rightarrow> 'k list" where
  "union_index xs ys = xs @ filter (\<lambda>y. y \<notin> set xs) (remdups ys)"

text \<open>\<^verbatim>\<open>series * df\<close>: the Series is aligned with the columns, label by label.\<close>

definition series_mul_frame :: "asset series \<Rightarrow> frame \<Rightarrow> frame" where
  "series_mul_frame s df =
     (let labels = union_index (columns df) (map fst s)
      in \<lparr>columns = labels,
          rows = map (\<lambda>(d, r).
                   (d, map (\<lambda>a. fmul (series_get s a) (series_get (zip (columns df) r) a)) labels))
                 (rows df)\<rparr>)"

definition sum_axis1 :: "frame \<Rightarrow> date series" where
  "sum_axis1 df = map (\<lambda>(d, r). (d, sum_skipna r)) (rows df)"

section \<open>One period\<close>

text \<open>
  \<^verbatim>\<open>
  def port_balance_calc(portfolio_weights, balance, date_filtered_returns, kd):
      try:
          if len(portfolio_weights) != portfolio_weights.isna().sum():
              initial_portfolio = portfolio_weights * balance
              cumulative_log_returns = np.log(1 + date_filtered_returns).cumsum()
              position_NAV = (initial_portfolio * np.exp(cumulative_log_returns)).round(2)
              balance_over_time = position_NAV.sum(axis=1)
              neg_check = check_negative_balance(series=balance_over_time)
              if kd > 0 and neg_check:
                  balance_net_pct = balance_over_time.pct_change() - kd
                  log_net_pct = np.log(1+balance_net_pct)
                  balance_over_time = balance * np.exp(log_net_pct.cumsum())
              final_balance = balance_over_time.iloc[-1]
              final_portfolio = position_NAV.iloc[-1] / final_balance
          else:
              dates_index = date_filtered_returns.index
              balance_over_time = pd.Series(balance, index=dates_index)
              final_portfolio = pd.Series(0,index=portfolio_weights.index)
          return balance_over_time, final_portfolio
      except Exception as e:
          logging.exception(f'ERROR Calculating BT Balance | {e}')
  \<close>
  An exception in the body is logged and the function returns Python's \<^verbatim>\<open>None\<close>, the
  model's \<open>None\<close>.  Two places can raise: \<^verbatim>\<open>kd > 0\<close> when \<^verbatim>\<open>kd\<close> is \<^verbatim>\<open>None\<close> (the leverage
  cost of a caller whose own computation failed), and \<^verbatim>\<open>.iloc[-1]\<close> on a table without
  rows.
\<close>

definition position_NAV :: "asset series \<Rightarrow> fl \<Rightarrow> frame \<Rightarrow> frame" where
  "position_NAV portfolio_weights balance date_filtered_returns =
     (let initial_portfolio = map (\<lambda>(a, w). (a, fmul w balance)) portfolio_weights;
          cumulative_log_returns =
            frame_cumsum (frame_map (\<lambda>x. flog (fadd (Fin 1) x)) date_filtered_returns)
      in frame_map (fround 2)
           (series_mul_frame initial_portfolio (frame_map fexp cumulative_log_returns)))"

definition leverage_adjusted :: "fl \<Rightarrow> fl \<Rightarrow> date series \<Rightarrow> date series" where
  "leverage_adjusted balance kd balance_over_time =
     (let balance_net_pct = map (\<lambda>(d, x). (d, fsub x kd)) (pct_change balance_over_time);
          log_net_pct = map (\<lambda>(d, x). (d, flog (fadd (Fin 1) x))) balance_net_pct
      in map (\<lambda>(d, x). (d, fmul balance (fexp x))) (cumsum log_net_pct))"

definition port_balance_calc ::
  "asset series \<Rightarrow> fl \<Rightarrow> frame \<Rightarrow> fl option \<Rightarrow> (date series \<times> asset series) option" where
  "port_balance_calc portfolio_weights balance date_filtered_returns kd =
     (if length portfolio_weights \<noteq> length (filter (\<lambda>(a, w). isna w) portfolio_weights) then
        let nav = position_NAV portfolio_weights balance date_filtered_returns;
            (balance_over_time, neg_check) = check_negative_balance (sum_axis1 nav)
        in case kd of
             None \<Rightarrow> None
           | Some k \<Rightarrow>
               let balance_over_time =
                     (if fgt k (Fin 0) \<and> neg_check
                      then leverage_adjusted balance k balance_over_time
                      else balance_over_time)
               in if balance_over_time = [] then None
                  else
                    let final_balance = snd (last balance_over_time);
                        final_portfolio =
                          map (\<lambda>(a, x). (a, fdiv x final_balance))
                            (zip (columns nav) (snd (last (rows nav))))
                    in Some (balance_over_time, final_portfolio)
      else
        let dates_index = frame_index date_filtered_returns;
            balance_over_time = map (\<lambda>d. (d, balance)) dates_index;
            final_portfolio = map (\<lambda>(a, w). (a, Fin 0)) portfolio_weights
        in Some (balance_over_time, final_portfolio))"

section \<open>Costs\<close>

text \<open>
  \<^verbatim>\<open>
  def calculate_rebalance_cost(current_portfolio, prev_portfolio, transaction_cost):
      try:
          current_portfolio, prev_portfolio = current_portfolio.align(prev_portfolio, fill_value=0)
          weight_difference = abs(current_portfolio - prev_portfolio)
          reb_cost = (weight_difference * transaction_cost).sum().round(6)
          return reb_cost
      except Exception as e:
          logging.exception(f'ERROR calculating rebalance costs | {e}')
  \<close>
  \<^verbatim>\<open>align(..., fill_value=0)\<close> puts both vectors on the union of their labels and then
  fills every NaN with 0: the entries that a vector did not have, and the ones it had as
  NaN.  With labels that are unique in each vector nothing here raises.
\<close>

definition aligned_get :: "'k series \<Rightarrow> 'k \<Rightarrow> fl" where
  "aligned_get s a = (let v = series_get s a in if isna v then Fin 0 else v)"

definition calculate_rebalance_cost :: "asset series \<Rightarrow> asset series \<Rightarrow> fl \<Rightarrow> fl" where
  "calculate_rebalance_cost current_portfolio prev_portfolio transaction_cost =
     (let labels = union_index (map fst current_portfolio) (map fst prev_portfolio);
          weight_difference =
            map (\<lambda>a. fabs (fsub (aligned_get current_portfolio a) (aligned_get prev_portfolio a)))
              labels
      in fround 6 (sum_skipna (map (\<lambda>x. fmul x transaction_cost) weight_difference)))"

text \<open>
  \<^verbatim>\<open>
  def calculate_leverage_costs(annual_cost_of_debt, portfolio_weights, days_in_year=360):
      try:
          leverage_cost = 0
          if annual_cost_of_debt > 0:
              total_debt = abs(portfolio_weights[portfolio_weights<0].sum())
              if total_debt > 0:
                  daily_cost_of_debt = annual_cost_of_debt / days_in_year
                  leverage_cost = daily_cost_of_debt * total_debt
          return leverage_cost
      except Exception as e:
          logging.exception(f'ERROR calculating leverage costs | {e}')
  \<close>
  \<^verbatim>\<open>days_in_year\<close> is a Python integer; dividing the rate (a Python float) by 0 raises
  ZeroDivisionError, which is logged: the function then returns \<^verbatim>\<open>None\<close>.
\<close>

definition calculate_leverage_costs :: "fl \<Rightarrow> asset series \<Rightarrow> int \<Rightarrow> fl option" where
  "calculate_leverage_costs annual_cost_of_debt portfolio_weights days_in_year =
     (if fgt annual_cost_of_debt (Fin 0) then
        let total_debt =
              fabs (sum_skipna (map snd (filter (\<lambda>(a, w). flt w (Fin 0)) portfolio_weights)))
        in if fgt total_debt (Fin 0) then
             (if days_in_year = 0 then None
              else Some (fmul (fdiv annual_cost_of_debt (Fin (of_int days_in_year))) total_debt))
           else Some (Fin 0)
      else Some (Fin 0))"

text \<open>
  \<^verbatim>\<open>
  def get_costs(trans_cost,portfolio_weights,last_weights,annual_kd):
      if trans_cost <= 0:
          reb_cost = 0
      else:
          reb_cost = calculate_rebalance_cost(current_portfolio=portfolio_weights,
                                              prev_portfolio=last_weights,
                                              transaction_cost=trans_cost)
      lev_cost = calculate_leverage_costs(annual_cost_of_debt=annual_kd,
                                          portfolio_weights=portfolio_weights)
      return reb_cost,lev_cost
  \<close>
\<close>

definition get_costs :: "fl \<Rightarrow> asset series \<Rightarrow> asset series \<Rightarrow> fl \<Rightarrow> fl \<times> fl option" where
  "get_costs trans_cost portfolio_weights last_weights annual_kd =
     (let reb_cost =
            (if fle trans_cost (Fin 0) then Fin 0
             else calculate_rebalance_cost portfolio_weights last_weights trans_cost);
          lev_cost = calculate_leverage_costs annual_kd portfolio_weights 360
      in (reb_cost, lev_cost))"

text \<open>
  The specification's reading of a weight vector at an asset, for comparison with
  \<open>calculate_rebalance_cost\<close>: the weight, and 0 for an asset that the vector does not
  have or has as NaN.
\<close>

definition spec_weight :: "asset series \<Rightarrow> asset \<Rightarrow> real" where
  "spec_weight s a = (case map_of s a of Some (Fin x) \<Rightarrow> x | _ \<Rightarrow> 0)"

section \<open>The rebalancing loop\<close>

text \<open>
  \<^verbatim>\<open>
  def get_balance(starting_balance,rebalance_dates,portfolios,end_date,sim_price_data,
                  trans_cost,annual_kd):
      all_dates_balance = {}
      balance = starting_balance
      try:
          end_date = end_date.date()
      except:
          pass
      returns_start_date = rebalance_dates[0]
      last_weights = pd.Series(0,index=sim_price_data.columns)
      n_rebalances = len(rebalance_dates)
      for reb_n in range(0,n_rebalances):
          portfolio_weights = portfolios.iloc[:,reb_n].dropna()
          try:
              if reb_n+1 < n_rebalances:
                  next_port = portfolios.iloc[:,reb_n+1]
                  date_to = next_port.name.date()
              else:
                  date_to = end_date
                  if returns_start_date == date_to:
                      break
          except Exception as e:
              logging.exception(f'ERROR setting BT dates | {e}')
          portfolio_weights = portfolio_weights[portfolio_weights!=0]
          date_filtered_returns = sim_price_data[portfolio_weights.index] \
              .loc[returns_start_date : date_to].pct_change(fill_method=None).dropna()
          reb_cost, lev_cost = get_costs(trans_cost=trans_cost,portfolio_weights=portfolio_weights,
                                         last_weights=last_weights,annual_kd=annual_kd)
          net_balance = get_net_balance(balance=balance,reb_cost=reb_cost)
          balance_df,last_weights = port_balance_calc(portfolio_weights = portfolio_weights,
              balance=net_balance, date_filtered_returns = date_filtered_returns, kd=lev_cost)
          balance = balance_df.iloc[-1]
          all_dates_balance[reb_n] = balance_df
          returns_start_date = date_to
      return all_dates_balance
  \<close>
  Dates are ordinals already, so the two \<^verbatim>\<open>.date()\<close> conversions do nothing.
  \<^verbatim>\<open>portfolios\<close> is the list of its columns, each with its name (the date of the
  rebalance) and its weights, NaN for an asset that is not held.  The loop's variables
  are the fields of a record; \<^verbatim>\<open>date_to\<close> is unbound until its first assignment.  What
  the loop does not catch ends the call with that exception:
  \<^item> \<^verbatim>\<open>rebalance_dates[0]\<close> and \<^verbatim>\<open>portfolios.iloc[:,reb_n]\<close> out of range, and \<^verbatim>\<open>.iloc[-1]\<close>
    on an empty trajectory: IndexError;
  \<^item> a weight whose asset is not a column of the prices: KeyError;
  \<^item> \<^verbatim>\<open>date_to\<close> read before any assignment (the lookup of the next column failed in the
    first period and was only logged): UnboundLocalError;
  \<^item> unpacking the \<^verbatim>\<open>None\<close> that \<^verbatim>\<open>port_balance_calc\<close> returns after an exception of
    its own: TypeError.
\<close>

datatype error = IndexError | KeyError | TypeError | UnboundLocalError

datatype 's flow = Break 's | Continue 's

record loop_state =
  st_balance :: fl
  st_last_weights :: "asset series"
  st_returns_start_date :: date
  st_date_to :: "date option"
  st_all_dates_balance :: "(nat \<times> date series) list"

text \<open>\<^verbatim>\<open>d[k] = v\<close> on a dictionary, which keeps its keys in insertion order.\<close>

fun dict_set :: "('k \<times> 'v) list \<Rightarrow> 'k \<Rightarrow> 'v \<Rightarrow> ('k \<times> 'v) list" where
  "dict_set [] k v = [(k, v)]"
| "dict_set ((k', v') # m) k v = (if k' = k then (k, v) # m else (k', v') # dict_set m k v)"

text \<open>One pass through the body of the loop.\<close>

definition period ::
  "(date \<times> asset series) list \<Rightarrow> date \<Rightarrow> frame \<Rightarrow> fl \<Rightarrow> fl \<Rightarrow> nat \<Rightarrow> nat \<Rightarrow> loop_state
     \<Rightarrow> error + loop_state flow" where
  "period portfolios end_date sim_price_data trans_cost annual_kd n_rebalances reb_n s =
     (if length portfolios \<le> reb_n then Inl IndexError
      else
        let portfolio_weights = dropna (snd (portfolios ! reb_n));
            (stop, date_to) =
              (if reb_n + 1 < n_rebalances then
                 (if reb_n + 1 < length portfolios
                  then (False, Some (fst (portfolios ! (reb_n + 1))))
                  else (False, st_date_to s))
               else (st_returns_start_date s = end_date, Some end_date))
        in if stop then Inr (Break (s\<lparr>st_date_to := date_to\<rparr>))
           else
             case date_to of
               None \<Rightarrow> Inl UnboundLocalError
             | Some date_to \<Rightarrow>
                 let portfolio_weights = filter (\<lambda>(a, w). w \<noteq> Fin 0) portfolio_weights
                 in case select_columns sim_price_data (map fst portfolio_weights) of
                      None \<Rightarrow> Inl KeyError
                    | Some selected \<Rightarrow>
                        let date_filtered_returns =
                              frame_dropna (frame_pct_change
                                (loc_slice selected (st_returns_start_date s) date_to));
                            (reb_cost, lev_cost) =
                              get_costs trans_cost portfolio_weights (st_last_weights s) annual_kd;
                            net_balance = get_net_balance (st_balance s) reb_cost
                        in case port_balance_calc portfolio_weights net_balance
                                  date_filtered_returns lev_cost of
                             None \<Rightarrow> Inl TypeError
                           | Some (balance_df, last_weights) \<Rightarrow>
                               if balance_df = [] then Inl IndexError
                               else Inr (Continue
                                 \<lparr>st_balance = snd (last balance_df),
                                  st_last_weights = last_weights,
                                  st_returns_start_date = date_to,
                                  st_date_to = Some date_to,
                                  st_all_dates_balance =
                                    dict_set (st_all_dates_balance s) reb_n balance_df\<rparr>))"

fun periods ::
  "(date \<times> asset series) list \<Rightarrow> date \<Rightarrow> frame \<Rightarrow> fl \<Rightarrow> fl \<Rightarrow> nat \<Rightarrow> nat list \<Rightarrow> loop_state
     \<Rightarrow> error + loop_state" where
  "periods portfolios end_date sim_price_data trans_cost annual_kd n_rebalances [] s = Inr s"
| "periods portfolios end_date sim_price_data trans_cost annual_kd n_rebalances (reb_n # rest) s =
     (case period portfolios end_date sim_price_data trans_cost annual_kd n_rebalances reb_n s of
        Inl e \<Rightarrow> Inl e
      | Inr (Break s') \<Rightarrow> Inr s'
      | Inr (Continue s') \<Rightarrow>
          periods portfolios end_date sim_price_data trans_cost annual_kd n_rebalances rest s')"

definition initial_state :: "fl \<Rightarrow> date \<Rightarrow> frame \<Rightarrow> loop_state" where
  "initial_state starting_balance first_date sim_price_data =
     \<lparr>st_balance = starting_balance,
      st_last_weights = map (\<lambda>a. (a, Fin 0)) (columns sim_price_data),
      st_returns_start_date = first_date,
      st_date_to = None,
      st_all_dates_balance = []\<rparr>"

definition get_balance ::
  "fl \<Rightarrow> date list \<Rightarrow> (date \<times> asset series) list \<Rightarrow> date \<Rightarrow> frame \<Rightarrow> fl \<Rightarrow> fl
     \<Rightarrow> error + (nat \<times> date series) list" where
  "get_balance starting_balance rebalance_dates portfolios end_date sim_price_data
       trans_cost annual_kd =
     (case rebalance_dates of
        [] \<Rightarrow> Inl IndexError
      | first_date # _ \<Rightarrow>
          (case periods portfolios end_date sim_price_data trans_cost annual_kd
                  (length rebalance_dates) [0..<length rebalance_dates]
                  (initial_state starting_balance first_date sim_price_data) of
             Inl e \<Rightarrow> Inl e
           | Inr s \<Rightarrow> Inr (st_all_dates_balance s)))"

section \<open>Facts about the numbers\<close>

lemma fgt_zero_not_fle: "fgt v (Fin 0) \<Longrightarrow> \<not> fle v (Fin 0)"
  by (cases v) (auto simp: fgt_def)

lemma fle_zero_not_fgt: "fle v (Fin 0) \<Longrightarrow> \<not> fgt v (Fin 0)"
  by (cases v) (auto simp: fgt_def)

lemma fmul_one_right: "fmul x (Fin 1) = x"
  by (cases x) (auto simp: signed_inf_def)

section \<open>Net balance\<close>

text \<open>
  Claim C7.  For a balance above 0 the net balance is the balance times one minus the cost
  fraction, rounded to 2 decimals; for a balance of 0 or below it is exactly 0, whatever
  the cost fraction; and with a cost fraction of 0 a balance above 0 is only rounded.
\<close>

theorem get_net_balance_cases:
  "(fgt balance (Fin 0) \<longrightarrow>
      get_net_balance balance reb_cost = fround 2 (fmul balance (fsub (Fin 1) reb_cost))) \<and>
   (fle balance (Fin 0) \<longrightarrow> get_net_balance balance reb_cost = Fin 0) \<and>
   (fgt balance (Fin 0) \<longrightarrow> get_net_balance balance (Fin 0) = fround 2 balance)"
  by (simp add: get_net_balance_def fle_zero_not_fgt fsub_def fmul_one_right)

theorem get_net_balance_cases_witness:
  "fgt (Fin 550) (Fin 0) \<and> get_net_balance (Fin 550) (Fin (1 / 50)) = Fin 539 \<and>
   fle (Fin (- 5)) (Fin 0) \<and> get_net_balance (Fin (- 5)) (Fin (1 / 50)) = Fin 0 \<and>
   get_net_balance (Fin (1001 / 8)) (Fin 0) = Fin (6256 / 50)"
  using get_net_balance_cases [of "Fin 550" "Fin (1 / 50)"]
    get_net_balance_cases [of "Fin (- 5)" "Fin (1 / 50)"]
    get_net_balance_cases [of "Fin (1001 / 8)" "Fin 0"]
  by (simp add: fgt_def fsub_def round_half_even_def Let_def)

section \<open>The guard\<close>

lemma zero_from_first:
  "distinct (map fst s) \<Longrightarrow> list_ex (\<lambda>(d, v). fle v (Fin 0)) s \<Longrightarrow>
   zero_from (fst (hd (filter (\<lambda>(d, v). fle v (Fin 0)) s))) s =
     takeWhile (\<lambda>(d, v). \<not> fle v (Fin 0)) s @
     map (\<lambda>(d, v). (d, Fin 0)) (dropWhile (\<lambda>(d, v). \<not> fle v (Fin 0)) s)"
proof (induction s)
  case Nil
  then show ?case by simp
next
  case (Cons p s)
  obtain d v where p: "p = (d, v)" by (cases p)
  show ?case
  proof (cases "fle v (Fin 0)")
    case True
    then show ?thesis by (simp add: p)
  next
    case False
    with Cons.prems p have ex: "list_ex (\<lambda>(d, v). fle v (Fin 0)) s" by simp
    then have "filter (\<lambda>(d, v). fle v (Fin 0)) s \<noteq> []"
      by (auto simp: list_ex_iff filter_empty_conv)
    then have "hd (filter (\<lambda>(d, v). fle v (Fin 0)) s) \<in> set s"
      using hd_in_set [of "filter (\<lambda>(d, v). fle v (Fin 0)) s"] by auto
    then have "fst (hd (filter (\<lambda>(d, v). fle v (Fin 0)) s)) \<in> fst ` set s" by (rule imageI)
    with Cons.prems p have ne: "d \<noteq> fst (hd (filter (\<lambda>(d, v). fle v (Fin 0)) s))" by auto
    from Cons.prems have "distinct (map fst s)" by simp
    from Cons.IH [OF this ex] False ne show ?thesis by (simp add: p)
  qed
qed

text \<open>
  Claim C10.  The guard returns the flag and leaves its result in the series it was
  given.  On a series whose index has no repeated date, the series after the call keeps
  the values before the first one that is 0 or below and is 0 from there on, and the flag
  says that there was no such value.  When every value is above 0 the series after the
  call is the series before it, and the flag is true.
\<close>

theorem check_negative_balance_in_place:
  "(distinct (map fst series) \<longrightarrow>
      check_negative_balance series =
        (takeWhile (\<lambda>(d, v). \<not> fle v (Fin 0)) series @
           map (\<lambda>(d, v). (d, Fin 0)) (dropWhile (\<lambda>(d, v). \<not> fle v (Fin 0)) series),
         \<not> list_ex (\<lambda>(d, v). fle v (Fin 0)) series)) \<and>
   ((\<forall>(d, v) \<in> set series. fgt v (Fin 0)) \<longrightarrow> check_negative_balance series = (series, True))"
proof (intro conjI impI)
  assume d: "distinct (map fst series)"
  show "check_negative_balance series =
        (takeWhile (\<lambda>(d, v). \<not> fle v (Fin 0)) series @
           map (\<lambda>(d, v). (d, Fin 0)) (dropWhile (\<lambda>(d, v). \<not> fle v (Fin 0)) series),
         \<not> list_ex (\<lambda>(d, v). fle v (Fin 0)) series)"
  proof (cases "list_ex (\<lambda>(d, v). fle v (Fin 0)) series")
    case True
    then show ?thesis
      by (simp add: check_negative_balance_def zero_from_first [OF d True])
  next
    case False
    then have "\<forall>x \<in> set series. (\<lambda>(d, v). \<not> fle v (Fin 0)) x"
      by (auto simp: list_ex_iff)
    then have tw: "takeWhile (\<lambda>(d, v). \<not> fle v (Fin 0)) series = series"
      and dw: "dropWhile (\<lambda>(d, v). \<not> fle v (Fin 0)) series = []"
      by (rule takeWhile_eq_all_conv [THEN iffD2], rule dropWhile_eq_Nil_conv [THEN iffD2])
    from False show ?thesis by (simp add: check_negative_balance_def tw dw)
  qed
next
  assume "\<forall>(d, v) \<in> set series. fgt v (Fin 0)"
  then have "\<not> list_ex (\<lambda>(d, v). fle v (Fin 0)) series"
    by (auto simp: list_ex_iff dest: fgt_zero_not_fle)
  then show "check_negative_balance series = (series, True)"
    by (simp add: check_negative_balance_def)
qed

theorem check_negative_balance_in_place_witness:
  "distinct (map fst [(1::int, Fin 5), (2, Fin (- 1)), (3, Fin 7)]) \<and>
   check_negative_balance [(1::int, Fin 5), (2, Fin (- 1)), (3, Fin 7)] =
     ([(1, Fin 5), (2, Fin 0), (3, Fin 0)], False) \<and>
   fgt (Fin 5) (Fin 0) \<and> fgt (Fin 7) (Fin 0) \<and>
   check_negative_balance [(1::int, Fin 5), (2, Fin 7)] = ([(1, Fin 5), (2, Fin 7)], True)"
  using check_negative_balance_in_place [of "[(1::int, Fin 5), (2, Fin (- 1)), (3, Fin 7)]"]
    check_negative_balance_in_place [of "[(1::int, Fin 5), (2, Fin 7)]"]
  by (simp add: fgt_def)

lemmas model_defs = get_costs_def calculate_rebalance_cost_def calculate_leverage_costs_def
  union_index_def aligned_get_def series_get_def fsub_def fgt_def round_half_even_def Let_def
  get_net_balance_def port_balance_calc_def position_NAV_def leverage_adjusted_def
  check_negative_balance_def frame_map_def frame_cumsum_def frame_pct_change_def frame_dropna_def
  loc_slice_def select_columns_def series_mul_frame_def sum_axis1_def cumsum_def pct_change_def
  pct_def cum_out_def cum_acc_def dropna_def frame_index_def signed_inf_def
  period_def initial_state_def get_balance_def

section \<open>One period\<close>

lemma all_filter_length: "length (filter P xs) = length xs \<longleftrightarrow> (\<forall>x \<in> set xs. P x)"
proof (induction xs)
  case Nil
  then show ?case by simp
next
  case (Cons x xs)
  have "length (filter P xs) \<le> length xs" by (rule length_filter_le)
  then have "length (filter P xs) \<noteq> Suc (length xs)" by linarith
  with Cons show ?case by auto
qed

lemma length_zero_from: "length (zero_from l s) = length s"
  by (induction s) auto

lemma map_fst_zero_from: "map fst (zero_from l s) = map fst s"
  by (induction s) (auto simp: case_prod_unfold)

lemma length_check_negative_balance: "length (fst (check_negative_balance s)) = length s"
  by (simp add: check_negative_balance_def Let_def length_zero_from)

lemma length_cumsum_rows: "length (cumsum_rows acc rs) = length rs"
  by (induction rs arbitrary: acc) auto

lemma length_cumsum_from: "length (cumsum_from acc s) = length s"
  by (induction s arbitrary: acc) auto

lemma length_pct_change_from: "length (pct_change_from p s) = length s"
  by (induction s arbitrary: p) auto

lemma length_pct_change: "length (pct_change s) = length s"
  by (simp add: pct_change_def length_pct_change_from split: list.splits)

lemma length_leverage_adjusted: "length (leverage_adjusted b k s) = length s"
  by (simp add: leverage_adjusted_def Let_def cumsum_def length_cumsum_from length_pct_change)

lemma length_rows_position_NAV:
  "length (rows (position_NAV pw b df)) = length (rows df)"
  by (simp add: position_NAV_def Let_def frame_map_def series_mul_frame_def frame_cumsum_def
      length_cumsum_rows)

lemma length_sum_axis1: "length (sum_axis1 df) = length (rows df)"
  by (simp add: sum_axis1_def)

lemma guarded_nonempty:
  "rows df \<noteq> [] \<Longrightarrow> fst (check_negative_balance (sum_axis1 (position_NAV pw b df))) \<noteq> []"
proof -
  have "length (fst (check_negative_balance (sum_axis1 (position_NAV pw b df)))) = length (rows df)"
    by (simp add: length_check_negative_balance length_sum_axis1 length_rows_position_NAV)
  moreover assume "rows df \<noteq> []"
  ultimately show ?thesis by (metis length_0_conv)
qed

lemma map_snd_fuse:
  "(\<lambda>(d, x). (d, f x)) \<circ> (\<lambda>(d, x). (d, g x)) = (\<lambda>(d, x). (d, f (g x)))"
  by (auto simp: fun_eq_iff)

text \<open>The normal branch, unfolded once.\<close>

lemma port_balance_calc_normal:
  assumes "\<exists>(a, w) \<in> set pw. \<not> isna w" and "rows df \<noteq> []"
  shows "port_balance_calc pw b df (Some k) =
    (let nav = position_NAV pw b df;
         guarded = fst (check_negative_balance (sum_axis1 nav));
         never_ruined = snd (check_negative_balance (sum_axis1 nav));
         traj = (if fgt k (Fin 0) \<and> never_ruined then leverage_adjusted b k guarded else guarded)
     in Some (traj, map (\<lambda>(a, x). (a, fdiv x (snd (last traj))))
                      (zip (columns nav) (snd (last (rows nav))))))"
proof -
  from assms(1) have "\<not> (\<forall>x \<in> set pw. (\<lambda>(a, w). isna w) x)" by auto
  then have n: "length pw \<noteq> length (filter (\<lambda>(a, w). isna w) pw)"
    using all_filter_length [of "\<lambda>(a, w). isna w" pw] by auto
  have g: "fst (check_negative_balance (sum_axis1 (position_NAV pw b df))) \<noteq> []"
    by (rule guarded_nonempty [OF assms(2)])
  then have l: "leverage_adjusted b k (fst (check_negative_balance (sum_axis1 (position_NAV pw b df)))) \<noteq> []"
    using length_leverage_adjusted [of b k "fst (check_negative_balance (sum_axis1 (position_NAV pw b df)))"]
    by (metis length_0_conv)
  show ?thesis
    using n g l by (simp add: port_balance_calc_def Let_def case_prod_unfold)
qed

text \<open>
  Claim C8.  When every weight of the period is NaN the period is a hold: the trajectory
  has the starting balance at every date of the index of the returns, and the ending
  weights are 0 for every asset of the weight vector.
\<close>

theorem port_balance_calc_all_nan:
  "(\<forall>(a, w) \<in> set portfolio_weights. isna w) \<Longrightarrow>
   port_balance_calc portfolio_weights balance date_filtered_returns kd =
     Some (map (\<lambda>d. (d, balance)) (frame_index date_filtered_returns),
           map (\<lambda>(a, w). (a, Fin 0)) portfolio_weights)"
proof -
  assume "\<forall>(a, w) \<in> set portfolio_weights. isna w"
  then have "length (filter (\<lambda>(a, w). isna w) portfolio_weights) = length portfolio_weights"
    by (simp add: all_filter_length)
  then show ?thesis by (simp add: port_balance_calc_def Let_def)
qed

theorem port_balance_calc_all_nan_witness:
  "isna NaN \<and>
   port_balance_calc [(''A'', NaN), (''B'', NaN)] (Fin 539)
       \<lparr>columns = [''A'', ''B''], rows = [(1, [Fin 0, Fin 0]), (2, [Fin (1 / 10), Fin 0])]\<rparr>
       (Some (Fin 0)) =
     Some ([(1, Fin 539), (2, Fin 539)], [(''A'', Fin 0), (''B'', Fin 0)])"
  using port_balance_calc_all_nan [of "[(''A'', NaN), (''B'', NaN)]" "Fin 539"
      "\<lparr>columns = [''A'', ''B''], rows = [(1, [Fin 0, Fin 0]), (2, [Fin (1 / 10), Fin 0])]\<rparr>"
      "Some (Fin 0)"]
  by (simp add: frame_index_def)

text \<open>
  Claim C2.  In a period with a weight that is not NaN and a returns table with rows, the
  trajectory that is returned is, when the daily leverage cost is above 0 and the guard
  found no value of 0 or below, the guard's trajectory turned into percent changes, less
  the daily cost at every date, then \<open>log (1 + x)\<close>, cumulative sum, exponential, times
  the starting balance; when the cost is 0 or below, or the guard found the period
  ruined, it is the guard's trajectory.
\<close>

theorem port_balance_calc_leverage_branch:
  assumes "\<exists>(a, w) \<in> set portfolio_weights. \<not> isna w"
    and "rows date_filtered_returns \<noteq> []"
  shows "\<exists>traj w.
    port_balance_calc portfolio_weights balance date_filtered_returns (Some kd) = Some (traj, w) \<and>
    (fgt kd (Fin 0) \<and>
     snd (check_negative_balance
            (sum_axis1 (position_NAV portfolio_weights balance date_filtered_returns))) \<longrightarrow>
       traj = map (\<lambda>(d, x). (d, fmul balance (fexp x)))
                (cumsum (map (\<lambda>(d, x). (d, flog (fadd (Fin 1) (fsub x kd))))
                   (pct_change (fst (check_negative_balance
                      (sum_axis1 (position_NAV portfolio_weights balance date_filtered_returns)))))))) \<and>
    (fle kd (Fin 0) \<or>
     \<not> snd (check_negative_balance
            (sum_axis1 (position_NAV portfolio_weights balance date_filtered_returns))) \<longrightarrow>
       traj = fst (check_negative_balance
                (sum_axis1 (position_NAV portfolio_weights balance date_filtered_returns))))"
  by (auto simp: port_balance_calc_normal [OF assms] Let_def leverage_adjusted_def map_snd_fuse
      dest: fle_zero_not_fgt)


theorem port_balance_calc_leverage_branch_witness:
  "\<not> isna (Fin 1) \<and>
   rows \<lparr>columns = [''A''], rows = [(1, [Fin 0]), (2, [Fin 0])]\<rparr> \<noteq> [] \<and>
   fgt (Fin (1 / 100)) (Fin 0) \<and>
   port_balance_calc [(''A'', Fin 1)] (Fin 1000)
       \<lparr>columns = [''A''], rows = [(1, [Fin 0]), (2, [Fin 0])]\<rparr> (Some (Fin (1 / 100))) =
     Some ([(1, NaN), (2, Fin 990)], [(''A'', Fin (100 / 99))]) \<and>
   fle (Fin 0) (Fin 0) \<and>
   port_balance_calc [(''A'', Fin 1)] (Fin 1000)
       \<lparr>columns = [''A''], rows = [(1, [Fin 0]), (2, [Fin 0])]\<rparr> (Some (Fin 0)) =
     Some ([(1, Fin 1000), (2, Fin 1000)], [(''A'', Fin 1)])"
proof -
  have h1: "\<exists>(a, w) \<in> set [(''A'', Fin 1)]. \<not> isna w" by simp
  have h2: "rows \<lparr>columns = [''A''], rows = [(1, [Fin 0]), (2, [Fin 0])]\<rparr> \<noteq> []" by simp
  show ?thesis
    using port_balance_calc_leverage_branch [OF h1 h2, of "Fin 1000" "Fin (1 / 100)"]
      port_balance_calc_leverage_branch [OF h1 h2, of "Fin 1000" "Fin 0"]
    by (simp add: model_defs)
qed

lemma snd_check_negative_balance:
  "snd (check_negative_balance s) \<Longrightarrow> fst (check_negative_balance s) = s"
  by (simp add: check_negative_balance_def Let_def split: if_splits)

lemma map_fst_cumsum_rows: "map fst (cumsum_rows acc rs) = map fst rs"
  by (induction rs arbitrary: acc) auto

lemma map_fst_sum_axis1_position_NAV:
  "map fst (sum_axis1 (position_NAV pw b df)) = map fst (rows df)"
  by (simp add: position_NAV_def Let_def frame_map_def series_mul_frame_def frame_cumsum_def
      sum_axis1_def comp_def case_prod_unfold map_fst_cumsum_rows)

lemma fmul_NaN_right: "fmul x NaN = NaN"
  by (cases x) auto

text \<open>
  Claim C9.  When the leverage branch is taken (a weight that is not NaN, a daily cost
  above 0, no value of 0 or below found by the guard), the trajectory that is returned
  has NaN at its first date.  The entries after it compound the daily net changes
  starting from the second date: the first date adds nothing to the running sum.
\<close>

theorem leverage_first_entry_nan:
  assumes "\<exists>(a, w) \<in> set portfolio_weights. \<not> isna w"
    and "rows date_filtered_returns = (d0, r0) # rs"
    and "fgt kd (Fin 0)"
    and "snd (check_negative_balance
           (sum_axis1 (position_NAV portfolio_weights balance date_filtered_returns)))"
  shows "\<exists>w.
    port_balance_calc portfolio_weights balance date_filtered_returns (Some kd) =
      Some ((d0, NaN) #
            map (\<lambda>(d, x). (d, fmul balance (fexp x)))
              (cumsum (map (\<lambda>(d, x). (d, flog (fadd (Fin 1) (fsub x kd))))
                 (pct_change_from
                    (snd (hd (sum_axis1
                       (position_NAV portfolio_weights balance date_filtered_returns))))
                    (tl (sum_axis1
                       (position_NAV portfolio_weights balance date_filtered_returns)))))),
            w)"
proof -
  let ?s = "sum_axis1 (position_NAV portfolio_weights balance date_filtered_returns)"
  from assms(2) have ne: "rows date_filtered_returns \<noteq> []" by simp
  have "map fst ?s = d0 # map fst rs"
    by (simp add: map_fst_sum_axis1_position_NAV assms(2))
  then obtain v0 s' where s: "?s = (d0, v0) # s'" by (cases ?s) auto
  have g: "fst (check_negative_balance ?s) = ?s"
    by (rule snd_check_negative_balance [OF assms(4)])
  show ?thesis
    using assms(3) assms(4)
    by (simp add: port_balance_calc_normal [OF assms(1) ne] Let_def g leverage_adjusted_def)
      (simp add: s pct_change_def cumsum_def cum_out_def cum_acc_def fsub_def fmul_NaN_right
        map_snd_fuse)
qed

theorem leverage_first_entry_nan_witness:
  "\<not> isna (Fin 1) \<and> fgt (Fin (1 / 100)) (Fin 0) \<and>
   snd (check_negative_balance (sum_axis1 (position_NAV [(''A'', Fin 1)] (Fin 1000)
      \<lparr>columns = [''A''], rows = [(1, [Fin 0]), (2, [Fin 0])]\<rparr>))) \<and>
   port_balance_calc [(''A'', Fin 1)] (Fin 1000)
       \<lparr>columns = [''A''], rows = [(1, [Fin 0]), (2, [Fin 0])]\<rparr> (Some (Fin (1 / 100))) =
     Some ([(1, NaN), (2, Fin 990)], [(''A'', Fin (100 / 99))])"
proof -
  have h1: "\<exists>(a, w) \<in> set [(''A'', Fin 1)]. \<not> isna w" by simp
  have h2: "rows \<lparr>columns = [''A''], rows = [(1, [Fin 0]), (2, [Fin 0])]\<rparr> = (1, [Fin 0]) # [(2, [Fin 0])]"
    by simp
  have h3: "fgt (Fin (1 / 100)) (Fin 0)" by (simp add: fgt_def)
  have h4: "snd (check_negative_balance (sum_axis1 (position_NAV [(''A'', Fin 1)] (Fin 1000)
      \<lparr>columns = [''A''], rows = [(1, [Fin 0]), (2, [Fin 0])]\<rparr>)))"
    by (simp add: model_defs)
  show ?thesis
    using leverage_first_entry_nan [OF h1 h2 h3 h4] h3 h4
    by (simp add: model_defs)
qed

section \<open>Costs\<close>

lemma fadd_negative:
  "flt x (Fin 0) \<Longrightarrow> fle y (Fin 0) \<Longrightarrow>
   flt (fadd x y) (Fin 0) \<and> fabs (fadd x y) = fadd (fabs x) (fabs y)"
  by (cases x; cases y) auto

lemma flt_zero_not_isna: "flt x (Fin 0) \<Longrightarrow> \<not> isna x \<and> \<not> isna (fabs x) \<and> fle x (Fin 0)"
  by (cases x) auto

lemma sum_skipna_negative:
  "\<forall>x \<in> set xs. flt x (Fin 0) \<Longrightarrow>
   fle (sum_skipna xs) (Fin 0) \<and> (xs \<noteq> [] \<longrightarrow> flt (sum_skipna xs) (Fin 0)) \<and>
   fabs (sum_skipna xs) = sum_skipna (map fabs xs)"
proof (induction xs)
  case Nil
  then show ?case by simp
next
  case (Cons x xs)
  then have x: "flt x (Fin 0)" and ih: "fle (sum_skipna xs) (Fin 0)"
    "fabs (sum_skipna xs) = sum_skipna (map fabs xs)" by simp_all
  from fadd_negative [OF x ih(1)] flt_zero_not_isna [OF x] ih(2)
  show ?case by (simp add: flt_zero_not_isna)
qed

lemma fabs_negative_positive: "flt x (Fin 0) \<Longrightarrow> fgt (fabs x) (Fin 0)"
  by (cases x) (auto simp: fgt_def)

lemma fdiv_positive: "fgt x (Fin 0) \<Longrightarrow> 0 < d \<Longrightarrow> fgt (fdiv x (Fin d)) (Fin 0)"
  by (cases x) (auto simp: fgt_def)

lemma fmul_positive: "fgt x (Fin 0) \<Longrightarrow> fgt y (Fin 0) \<Longrightarrow> fgt (fmul x y) (Fin 0)"
  by (cases x; cases y) (auto simp: fgt_def signed_inf_def)

text \<open>
  Claim C6.  The leverage cost is 0 when the annual rate is not above 0, and when no
  weight is below 0.  With a rate above 0, a weight below 0 and a number of days other
  than 0 it is the rate over the days, times the exposure: the sum of the absolute values
  of the weights below 0.  With a positive number of days, the default 360 among them, that
  cost is above 0.
\<close>

theorem calculate_leverage_costs_cases:
  "(\<not> fgt annual_cost_of_debt (Fin 0) \<longrightarrow>
      calculate_leverage_costs annual_cost_of_debt portfolio_weights days_in_year = Some (Fin 0)) \<and>
   ((\<forall>(a, w) \<in> set portfolio_weights. \<not> flt w (Fin 0)) \<longrightarrow>
      calculate_leverage_costs annual_cost_of_debt portfolio_weights days_in_year = Some (Fin 0)) \<and>
   (fgt annual_cost_of_debt (Fin 0) \<and> (\<exists>(a, w) \<in> set portfolio_weights. flt w (Fin 0)) \<and>
    days_in_year \<noteq> 0 \<longrightarrow>
      calculate_leverage_costs annual_cost_of_debt portfolio_weights days_in_year =
        Some (fmul (fdiv annual_cost_of_debt (Fin (of_int days_in_year)))
                (sum_skipna (map fabs
                   (map snd (filter (\<lambda>(a, w). flt w (Fin 0)) portfolio_weights)))))) \<and>
   (fgt annual_cost_of_debt (Fin 0) \<and> (\<exists>(a, w) \<in> set portfolio_weights. flt w (Fin 0)) \<and>
    0 < days_in_year \<longrightarrow>
      (\<exists>c. calculate_leverage_costs annual_cost_of_debt portfolio_weights days_in_year = Some c \<and>
           fgt c (Fin 0)))"
proof -
  let ?neg = "map snd (filter (\<lambda>(a, w). flt w (Fin 0)) portfolio_weights)"
  have all_neg: "\<forall>x \<in> set ?neg. flt x (Fin 0)" by auto
  note s = sum_skipna_negative [OF all_neg]
  have none: "calculate_leverage_costs annual_cost_of_debt portfolio_weights days_in_year =
      Some (Fin 0)" if "\<forall>(a, w) \<in> set portfolio_weights. \<not> flt w (Fin 0)"
  proof -
    from that have "filter (\<lambda>(a, w). flt w (Fin 0)) portfolio_weights = []"
      by (auto simp: filter_empty_conv)
    then show ?thesis by (simp add: calculate_leverage_costs_def fgt_def)
  qed
  have some: "fgt (fabs (sum_skipna ?neg)) (Fin 0)"
    if "\<exists>(a, w) \<in> set portfolio_weights. flt w (Fin 0)"
  proof -
    from that have "?neg \<noteq> []" by (auto simp: filter_empty_conv)
    with s have "flt (sum_skipna ?neg) (Fin 0)" by simp
    then show ?thesis by (rule fabs_negative_positive)
  qed
  have formula: "calculate_leverage_costs annual_cost_of_debt portfolio_weights days_in_year =
        Some (fmul (fdiv annual_cost_of_debt (Fin (of_int days_in_year)))
                (sum_skipna (map fabs ?neg)))"
    if "fgt annual_cost_of_debt (Fin 0)" "\<exists>(a, w) \<in> set portfolio_weights. flt w (Fin 0)"
      "days_in_year \<noteq> 0"
    using that some [OF that(2)] s by (simp add: calculate_leverage_costs_def Let_def)
  have positive: "\<exists>c. calculate_leverage_costs annual_cost_of_debt portfolio_weights days_in_year
        = Some c \<and> fgt c (Fin 0)"
    if "fgt annual_cost_of_debt (Fin 0)" "\<exists>(a, w) \<in> set portfolio_weights. flt w (Fin 0)"
      "0 < days_in_year"
  proof -
    from that(3) have "days_in_year \<noteq> 0" and d: "0 < (of_int days_in_year :: real)" by simp_all
    from formula [OF that(1,2) this(1)] s
    have "calculate_leverage_costs annual_cost_of_debt portfolio_weights days_in_year =
        Some (fmul (fdiv annual_cost_of_debt (Fin (of_int days_in_year)))
                (fabs (sum_skipna ?neg)))" by simp
    moreover have "fgt (fmul (fdiv annual_cost_of_debt (Fin (of_int days_in_year)))
                (fabs (sum_skipna ?neg))) (Fin 0)"
      by (rule fmul_positive [OF fdiv_positive [OF that(1) d] some [OF that(2)]])
    ultimately show ?thesis by simp
  qed
  show ?thesis
    using none formula positive by (simp add: calculate_leverage_costs_def)
qed

theorem calculate_leverage_costs_cases_witness:
  "\<not> fgt (Fin 0) (Fin 0) \<and>
   calculate_leverage_costs (Fin 0) [(''A'', Fin (- 1))] 360 = Some (Fin 0) \<and>
   \<not> flt (Fin (1 / 2)) (Fin 0) \<and>
   calculate_leverage_costs (Fin (9 / 25)) [(''A'', Fin (1 / 2)), (''B'', Fin (1 / 2))] 360 =
     Some (Fin 0) \<and>
   fgt (Fin (9 / 25)) (Fin 0) \<and> flt (Fin (- 1 / 2)) (Fin 0) \<and> (360::int) \<noteq> 0 \<and> (0::int) < 360 \<and>
   calculate_leverage_costs (Fin (9 / 25))
       [(''A'', Fin (3 / 2)), (''B'', Fin (- 1 / 2)), (''C'', Fin (- 1 / 4))] 360 =
     Some (Fin (3 / 4000)) \<and>
   fgt (Fin (3 / 4000)) (Fin 0)"
  using calculate_leverage_costs_cases [of "Fin 0" "[(''A'', Fin (- 1))]" 360]
    calculate_leverage_costs_cases [of "Fin (9 / 25)" "[(''A'', Fin (1 / 2)), (''B'', Fin (1 / 2))]" 360]
    calculate_leverage_costs_cases [of "Fin (9 / 25)"
      "[(''A'', Fin (3 / 2)), (''B'', Fin (- 1 / 2)), (''C'', Fin (- 1 / 4))]" 360]
  by (simp add: fgt_def)

lemma set_union_index: "set (union_index xs ys) = set xs \<union> set ys"
  by (auto simp: union_index_def)

lemma distinct_union_index: "distinct xs \<Longrightarrow> distinct (union_index xs ys)"
  by (auto simp: union_index_def)

lemma aligned_get_finite:
  assumes "\<forall>(a, w) \<in> set s. w \<noteq> PInf \<and> w \<noteq> NInf"
  shows "aligned_get s a = Fin (spec_weight s a)"
proof (cases "map_of s a")
  case None
  then show ?thesis by (simp add: aligned_get_def series_get_def spec_weight_def)
next
  case (Some v)
  then have "(a, v) \<in> set s" by (rule map_of_SomeD)
  with assms have "v \<noteq> PInf \<and> v \<noteq> NInf" by auto
  with Some show ?thesis
    by (cases v) (simp_all add: aligned_get_def series_get_def spec_weight_def)
qed

lemma sum_skipna_Fin: "sum_skipna (map (\<lambda>a. Fin (f a)) xs) = Fin (sum_list (map f xs))"
  by (induction xs) auto

lemma calculate_rebalance_cost_finite:
  assumes "distinct (map fst cur)"
    and "\<forall>(a, w) \<in> set cur. w \<noteq> PInf \<and> w \<noteq> NInf"
    and "\<forall>(a, w) \<in> set prev. w \<noteq> PInf \<and> w \<noteq> NInf"
  shows "calculate_rebalance_cost cur prev (Fin r) =
    fround 6 (Fin ((\<Sum>a \<in> fst ` set cur \<union> fst ` set prev.
      \<bar>spec_weight cur a - spec_weight prev a\<bar>) * r))"
proof -
  let ?labels = "union_index (map fst cur) (map fst prev)"
  let ?d = "\<lambda>a. \<bar>spec_weight cur a - spec_weight prev a\<bar>"
  have d: "distinct ?labels" by (rule distinct_union_index [OF assms(1)])
  have l: "set ?labels = fst ` set cur \<union> fst ` set prev" by (simp add: set_union_index)
  have m: "map (\<lambda>x. fmul x (Fin r))
          (map (\<lambda>a. fabs (fsub (aligned_get cur a) (aligned_get prev a))) ?labels) =
        map (\<lambda>a. Fin (?d a * r)) ?labels"
    by (simp add: aligned_get_finite [OF assms(2)] aligned_get_finite [OF assms(3)] fsub_def)
  have "calculate_rebalance_cost cur prev (Fin r) =
      fround 6 (Fin (sum_list (map (\<lambda>a. ?d a * r) ?labels)))"
    by (simp only: calculate_rebalance_cost_def Let_def m sum_skipna_Fin)
  also have "sum_list (map (\<lambda>a. ?d a * r) ?labels) = (\<Sum>a \<in> set ?labels. ?d a * r)"
    by (rule sum_list_distinct_conv_sum_set [OF d])
  also have "\<dots> = (\<Sum>a \<in> set ?labels. ?d a) * r"
    by (rule sum_distrib_right [symmetric])
  finally show ?thesis by (simp only: l)
qed

text \<open>
  Claim C5.  The rebalance cost that \<open>get_costs\<close> returns is 0 when the cost rate is 0 or
  below, without any turnover being computed.  For a rate above 0 and two weight vectors
  with unique labels and no infinite weight, it is the sum, over the assets of either
  vector, of the absolute difference of the two weights (0 for an asset a vector does not
  have), times the rate, rounded to 6 decimals.
\<close>

theorem get_costs_rebalance_cost:
  "(fle trans_cost (Fin 0) \<longrightarrow>
      fst (get_costs trans_cost portfolio_weights last_weights annual_kd) = Fin 0) \<and>
   (0 < r \<and> distinct (map fst portfolio_weights) \<and> distinct (map fst last_weights) \<and>
    (\<forall>(a, w) \<in> set portfolio_weights \<union> set last_weights. w \<noteq> PInf \<and> w \<noteq> NInf) \<longrightarrow>
      fst (get_costs (Fin r) portfolio_weights last_weights annual_kd) =
        fround 6 (Fin ((\<Sum>a \<in> fst ` set portfolio_weights \<union> fst ` set last_weights.
          \<bar>spec_weight portfolio_weights a - spec_weight last_weights a\<bar>) * r)))"
proof (intro conjI impI)
  assume "fle trans_cost (Fin 0)"
  then show "fst (get_costs trans_cost portfolio_weights last_weights annual_kd) = Fin 0"
    by (simp add: get_costs_def)
next
  assume a: "0 < r \<and> distinct (map fst portfolio_weights) \<and> distinct (map fst last_weights) \<and>
    (\<forall>(a, w) \<in> set portfolio_weights \<union> set last_weights. w \<noteq> PInf \<and> w \<noteq> NInf)"
  then have "\<forall>(a, w) \<in> set portfolio_weights. w \<noteq> PInf \<and> w \<noteq> NInf"
    and "\<forall>(a, w) \<in> set last_weights. w \<noteq> PInf \<and> w \<noteq> NInf" by auto
  from calculate_rebalance_cost_finite [OF _ this, of r] a
  show "fst (get_costs (Fin r) portfolio_weights last_weights annual_kd) =
        fround 6 (Fin ((\<Sum>a \<in> fst ` set portfolio_weights \<union> fst ` set last_weights.
          \<bar>spec_weight portfolio_weights a - spec_weight last_weights a\<bar>) * r))"
    by (simp add: get_costs_def)
qed

theorem get_costs_rebalance_cost_witness:
  "fle (Fin 0) (Fin 0) \<and>
   fst (get_costs (Fin 0) [(''B'', Fin 1)] [(''A'', Fin 1)] (Fin 0)) = Fin 0 \<and>
   (0::real) < 1 / 100 \<and> distinct (map fst [(''B'', Fin 1)]) \<and>
   distinct (map fst [(''A'', Fin 1)]) \<and>
   fst (get_costs (Fin (1 / 100)) [(''B'', Fin 1)] [(''A'', Fin 1)] (Fin 0)) = Fin (1 / 50)"
  using get_costs_rebalance_cost [of "Fin 0" "[(''B'', Fin 1)]" "[(''A'', Fin 1)]" "Fin 0" "1 / 100"]
  by (simp add: spec_weight_def round_half_even_def Let_def)

section \<open>The rebalancing loop\<close>

text \<open>What a pass through the loop's body that reaches its end has done.\<close>

lemma period_Continue:
  assumes "period portfolios end_date sim_price_data trans_cost annual_kd n reb_n s =
    Inr (Continue s')"
  shows "\<exists>sel traj.
    reb_n < length portfolios \<and>
    select_columns sim_price_data
      (map fst (filter (\<lambda>(a, w). w \<noteq> Fin 0) (dropna (snd (portfolios ! reb_n))))) = Some sel \<and>
    port_balance_calc (filter (\<lambda>(a, w). w \<noteq> Fin 0) (dropna (snd (portfolios ! reb_n))))
      (get_net_balance (st_balance s)
         (fst (get_costs trans_cost
                 (filter (\<lambda>(a, w). w \<noteq> Fin 0) (dropna (snd (portfolios ! reb_n))))
                 (st_last_weights s) annual_kd)))
      (frame_dropna (frame_pct_change
         (loc_slice sel (st_returns_start_date s) (st_returns_start_date s'))))
      (snd (get_costs trans_cost
              (filter (\<lambda>(a, w). w \<noteq> Fin 0) (dropna (snd (portfolios ! reb_n))))
              (st_last_weights s) annual_kd)) = Some (traj, st_last_weights s') \<and>
    traj \<noteq> [] \<and>
    st_balance s' = snd (last traj) \<and>
    st_all_dates_balance s' = dict_set (st_all_dates_balance s) reb_n traj \<and>
    (reb_n + 1 < n \<longrightarrow> reb_n + 1 < length portfolios \<longrightarrow>
       st_returns_start_date s' = fst (portfolios ! (reb_n + 1))) \<and>
    (\<not> reb_n + 1 < n \<longrightarrow> st_returns_start_date s' = end_date)"
  using assms
  by (auto simp: period_def Let_def split: if_splits option.splits prod.splits)

lemma period_Break:
  "period portfolios end_date sim_price_data trans_cost annual_kd n reb_n s = Inr (Break s') \<Longrightarrow>
   st_all_dates_balance s' = st_all_dates_balance s"
  by (auto simp: period_def Let_def split: if_splits option.splits prod.splits)

text \<open>The loop is left early only in the last period, when it would start at the end date.\<close>

lemma period_Break_last:
  "period portfolios end_date sim_price_data trans_cost annual_kd n reb_n s = Inr (Break s') \<Longrightarrow>
   \<not> reb_n + 1 < n \<and> st_returns_start_date s = end_date"
  by (auto simp: period_def Let_def split: if_splits option.splits prod.splits)

lemma dict_set_fresh: "k \<notin> fst ` set m \<Longrightarrow> dict_set m k v = m @ [(k, v)]"
  by (induction m) auto


text \<open>
  The states that the loop goes through from period \<open>i\<close> on, and what it adds to the
  dictionary: one entry per period that reached its end, under the period's number.
\<close>

lemma periods_trace:
  assumes "periods portfolios end_date sim_price_data trans_cost annual_kd n [i..<m] s = Inr sf"
    and "map fst (st_all_dates_balance s) = [0..<i]"
  shows "\<exists>states news.
    length states = Suc (length news) \<and> states ! 0 = s \<and>
    st_all_dates_balance sf = st_all_dates_balance s @ news \<and>
    i + length news \<le> max i m \<and>
    (i + length news = max i m \<or>
     i + length news < m \<and>
     (\<exists>s'. period portfolios end_date sim_price_data trans_cost annual_kd n (i + length news)
             (states ! length news) = Inr (Break s'))) \<and>
    (\<forall>j < length news.
       period portfolios end_date sim_price_data trans_cost annual_kd n (i + j) (states ! j) =
         Inr (Continue (states ! Suc j)) \<and>
       map fst (st_all_dates_balance (states ! j)) = [0..<i + j] \<and>
       st_all_dates_balance (states ! Suc j) = st_all_dates_balance (states ! j) @ [news ! j])"
  using assms
proof (induction "m - i" arbitrary: i s)
  case 0
  then have "[i..<m] = []" by simp
  with "0.prems" have "sf = s" by simp
  moreover from "0.hyps" have "max i m = i" by simp
  ultimately have "length [s] = Suc (length ([] :: (nat \<times> date series) list)) \<and> [s] ! 0 = s \<and>
    st_all_dates_balance sf = st_all_dates_balance s @ [] \<and>
    i + length ([] :: (nat \<times> date series) list) \<le> max i m \<and>
    i + length ([] :: (nat \<times> date series) list) = max i m"
    by simp
  then show ?case by (intro exI [of _ "[s]"] exI [of _ "[]"]) simp
next
  case (Suc k)
  then have lt: "i < m" by simp
  then have upt: "[i..<m] = i # [Suc i..<m]" by (rule upt_conv_Cons)
  show ?case
  proof (cases "period portfolios end_date sim_price_data trans_cost annual_kd n i s")
    case (Inl e)
    with Suc.prems upt show ?thesis by simp
  next
    case (Inr fl)
    show ?thesis
    proof (cases fl)
      case (Break s')
      with Inr Suc.prems upt have "sf = s'" by simp
      with period_Break Inr Break have "st_all_dates_balance sf = st_all_dates_balance s"
        by blast
      moreover from Inr Break have "\<exists>s'. period portfolios end_date sim_price_data trans_cost
          annual_kd n i s = Inr (Break s')" by simp
      ultimately have "length [s] = Suc (length ([] :: (nat \<times> date series) list)) \<and> [s] ! 0 = s \<and>
        st_all_dates_balance sf = st_all_dates_balance s @ [] \<and>
        i + length ([] :: (nat \<times> date series) list) \<le> max i m \<and>
        i + length ([] :: (nat \<times> date series) list) < m \<and>
        (\<exists>s'. period portfolios end_date sim_price_data trans_cost annual_kd n
           (i + length ([] :: (nat \<times> date series) list))
           ([s] ! length ([] :: (nat \<times> date series) list)) = Inr (Break s'))"
        using lt by simp
      then show ?thesis by (intro exI [of _ "[s]"] exI [of _ "[]"]) simp
    next
      case (Continue s')
      with Inr have step: "period portfolios end_date sim_price_data trans_cost annual_kd n i s =
        Inr (Continue s')" by simp
      from period_Continue [OF step] obtain traj where
        "st_all_dates_balance s' = dict_set (st_all_dates_balance s) i traj" by blast
      moreover from Suc.prems(2) have "i \<notin> fst ` set (st_all_dates_balance s)"
        by (metis atLeastLessThan_iff less_irrefl set_map set_upt)
      ultimately have all': "st_all_dates_balance s' = st_all_dates_balance s @ [(i, traj)]"
        by (simp add: dict_set_fresh)
      with Suc.prems(2) have keys': "map fst (st_all_dates_balance s') = [0..<Suc i]" by simp
      from step Suc.prems(1) upt have rest:
        "periods portfolios end_date sim_price_data trans_cost annual_kd n [Suc i..<m] s' = Inr sf"
        by simp
      from Suc.hyps(2) have "k = m - Suc i" by simp
      from Suc.hyps(1) [OF this rest keys'] obtain states news where t:
        "length states = Suc (length news)" "states ! 0 = s'"
        "st_all_dates_balance sf = st_all_dates_balance s' @ news"
        "Suc i + length news \<le> max (Suc i) m"
        "Suc i + length news = max (Suc i) m \<or>
         Suc i + length news < m \<and>
         (\<exists>s'. period portfolios end_date sim_price_data trans_cost annual_kd n
            (Suc i + length news) (states ! length news) = Inr (Break s'))"
        "\<forall>j < length news.
           period portfolios end_date sim_price_data trans_cost annual_kd n (Suc i + j) (states ! j) =
             Inr (Continue (states ! Suc j)) \<and>
           map fst (st_all_dates_balance (states ! j)) = [0..<Suc i + j] \<and>
           st_all_dates_balance (states ! Suc j) = st_all_dates_balance (states ! j) @ [news ! j]"
        by blast
      let ?states = "s # states" and ?news = "(i, traj) # news"
      have a: "length ?states = Suc (length ?news)" using t(1) by simp
      have b: "?states ! 0 = s" by simp
      have c: "st_all_dates_balance sf = st_all_dates_balance s @ ?news"
        using t(3) all' by simp
      have d: "i + length ?news \<le> max i m" using t(4) lt by simp
      have d': "i + length ?news = max i m \<or>
         i + length ?news < m \<and>
         (\<exists>s'. period portfolios end_date sim_price_data trans_cost annual_kd n
            (i + length ?news) (?states ! length ?news) = Inr (Break s'))"
        using t(5) lt by (simp add: max_def)
      have e: "period portfolios end_date sim_price_data trans_cost annual_kd n (i + j) (?states ! j) =
             Inr (Continue (?states ! Suc j)) \<and>
           map fst (st_all_dates_balance (?states ! j)) = [0..<i + j] \<and>
           st_all_dates_balance (?states ! Suc j) = st_all_dates_balance (?states ! j) @ [?news ! j]"
        if "j < length ?news" for j
      proof (cases j)
        case 0
        then show ?thesis using step t(2) all' Suc.prems(2) by simp
      next
        case (Suc j')
        with that have "j' < length news" by simp
        with t(6) Suc show ?thesis by simp
      qed
      from a b c d d' e show ?thesis by blast
    qed
  qed
qed


lemma periods_run:
  assumes "\<forall>j < k. period portfolios end_date sim_price_data trans_cost annual_kd n (i + j)
      (states ! j) = Inr (Continue (states ! Suc j))"
    and "i + k \<le> m"
  shows "periods portfolios end_date sim_price_data trans_cost annual_kd n [i..<m] (states ! 0) =
    periods portfolios end_date sim_price_data trans_cost annual_kd n [i + k..<m] (states ! k)"
  using assms
proof (induction k)
  case 0
  then show ?case by simp
next
  case (Suc k)
  then have ih: "periods portfolios end_date sim_price_data trans_cost annual_kd n [i..<m]
      (states ! 0) =
    periods portfolios end_date sim_price_data trans_cost annual_kd n [i + k..<m] (states ! k)"
    by simp
  from Suc.prems(2) have "i + k < m" by simp
  then have upt: "[i + k..<m] = (i + k) # [i + Suc k..<m]" by (simp add: upt_conv_Cons)
  from Suc.prems(1) have "period portfolios end_date sim_price_data trans_cost annual_kd n (i + k)
      (states ! k) = Inr (Continue (states ! Suc k))" by simp
  with ih upt show ?case by simp
qed

text \<open>
  Claim C4.  \<open>get_balance\<close> is the fold of the loop's body over the rebalance dates.
  A call that returns has gone through a sequence of states, one more than the periods it
  recorded.  The first state holds the starting balance, a weight of 0 for every column
  of the prices, and the first rebalance date.  Period \<open>i\<close> runs \<open>port_balance_calc\<close> on
  the balance net of the costs computed from the weights of state \<open>i\<close>, over the dates
  from the start date of state \<open>i\<close>; its trajectory is entry \<open>i\<close> of the result, under key
  \<open>i\<close>, and state \<open>i + 1\<close> holds the last value of that trajectory, the ending weights of
  that call, and the date at which the period ended.  The keys of the result are
  \<open>0, 1, ...\<close> in this order.  Every period is run and recorded: the result has one
  entry per rebalance date, or one less when the last period would start at the end date
  and the loop is left before it.  Conversely, whenever the body goes through every
  period, or through every period but the last and then leaves the loop, the call returns
  the dictionary of the last state.
\<close>

theorem get_balance_fold:
  "(get_balance starting_balance rebalance_dates portfolios end_date sim_price_data
      trans_cost annual_kd = Inr result \<longrightarrow>
    (\<exists>states.
    length states = Suc (length result) \<and>
    states ! 0 =
      \<lparr>st_balance = starting_balance,
       st_last_weights = map (\<lambda>a. (a, Fin 0)) (columns sim_price_data),
       st_returns_start_date = hd rebalance_dates,
       st_date_to = None,
       st_all_dates_balance = []\<rparr> \<and>
    rebalance_dates \<noteq> [] \<and>
    map fst result = [0..<length result] \<and>
    length result \<le> length rebalance_dates \<and>
    (length result = length rebalance_dates \<or>
     Suc (length result) = length rebalance_dates \<and>
     st_returns_start_date (states ! length result) = end_date) \<and>
    (\<forall>i < length result. \<exists>sel.
       select_columns sim_price_data
         (map fst (filter (\<lambda>(a, w). w \<noteq> Fin 0) (dropna (snd (portfolios ! i))))) = Some sel \<and>
       port_balance_calc (filter (\<lambda>(a, w). w \<noteq> Fin 0) (dropna (snd (portfolios ! i))))
         (get_net_balance (st_balance (states ! i))
            (fst (get_costs trans_cost
                    (filter (\<lambda>(a, w). w \<noteq> Fin 0) (dropna (snd (portfolios ! i))))
                    (st_last_weights (states ! i)) annual_kd)))
         (frame_dropna (frame_pct_change
            (loc_slice sel (st_returns_start_date (states ! i))
               (st_returns_start_date (states ! Suc i)))))
         (snd (get_costs trans_cost
                 (filter (\<lambda>(a, w). w \<noteq> Fin 0) (dropna (snd (portfolios ! i))))
                 (st_last_weights (states ! i)) annual_kd)) =
           Some (snd (result ! i), st_last_weights (states ! Suc i)) \<and>
       st_balance (states ! Suc i) = snd (last (snd (result ! i))) \<and>
       st_all_dates_balance (states ! Suc i) = take (Suc i) result \<and>
       (Suc i < length rebalance_dates \<longrightarrow> Suc i < length portfolios \<longrightarrow>
          st_returns_start_date (states ! Suc i) = fst (portfolios ! Suc i)) \<and>
       (\<not> Suc i < length rebalance_dates \<longrightarrow> st_returns_start_date (states ! Suc i) = end_date)))) \<and>
   (\<forall>states.
      rebalance_dates \<noteq> [] \<and>
      states ! 0 =
        \<lparr>st_balance = starting_balance,
         st_last_weights = map (\<lambda>a. (a, Fin 0)) (columns sim_price_data),
         st_returns_start_date = hd rebalance_dates,
         st_date_to = None,
         st_all_dates_balance = []\<rparr> \<and>
      (\<forall>i < length rebalance_dates.
         period portfolios end_date sim_price_data trans_cost annual_kd (length rebalance_dates) i
           (states ! i) = Inr (Continue (states ! Suc i))) \<longrightarrow>
      get_balance starting_balance rebalance_dates portfolios end_date sim_price_data
        trans_cost annual_kd = Inr (st_all_dates_balance (states ! length rebalance_dates))) \<and>
   (\<forall>states s'.
      rebalance_dates \<noteq> [] \<and>
      states ! 0 =
        \<lparr>st_balance = starting_balance,
         st_last_weights = map (\<lambda>a. (a, Fin 0)) (columns sim_price_data),
         st_returns_start_date = hd rebalance_dates,
         st_date_to = None,
         st_all_dates_balance = []\<rparr> \<and>
      (\<forall>i < length rebalance_dates - 1.
         period portfolios end_date sim_price_data trans_cost annual_kd (length rebalance_dates) i
           (states ! i) = Inr (Continue (states ! Suc i))) \<and>
      period portfolios end_date sim_price_data trans_cost annual_kd (length rebalance_dates)
        (length rebalance_dates - 1) (states ! (length rebalance_dates - 1)) = Inr (Break s') \<longrightarrow>
      get_balance starting_balance rebalance_dates portfolios end_date sim_price_data
        trans_cost annual_kd =
        Inr (st_all_dates_balance (states ! (length rebalance_dates - 1))))"
proof (intro conjI impI allI)
  assume assms: "get_balance starting_balance rebalance_dates portfolios end_date sim_price_data
      trans_cost annual_kd = Inr result"
  show "\<exists>states.
    length states = Suc (length result) \<and>
    states ! 0 =
      \<lparr>st_balance = starting_balance,
       st_last_weights = map (\<lambda>a. (a, Fin 0)) (columns sim_price_data),
       st_returns_start_date = hd rebalance_dates,
       st_date_to = None,
       st_all_dates_balance = []\<rparr> \<and>
    rebalance_dates \<noteq> [] \<and>
    map fst result = [0..<length result] \<and>
    length result \<le> length rebalance_dates \<and>
    (length result = length rebalance_dates \<or>
     Suc (length result) = length rebalance_dates \<and>
     st_returns_start_date (states ! length result) = end_date) \<and>
    (\<forall>i < length result. \<exists>sel.
       select_columns sim_price_data
         (map fst (filter (\<lambda>(a, w). w \<noteq> Fin 0) (dropna (snd (portfolios ! i))))) = Some sel \<and>
       port_balance_calc (filter (\<lambda>(a, w). w \<noteq> Fin 0) (dropna (snd (portfolios ! i))))
         (get_net_balance (st_balance (states ! i))
            (fst (get_costs trans_cost
                    (filter (\<lambda>(a, w). w \<noteq> Fin 0) (dropna (snd (portfolios ! i))))
                    (st_last_weights (states ! i)) annual_kd)))
         (frame_dropna (frame_pct_change
            (loc_slice sel (st_returns_start_date (states ! i))
               (st_returns_start_date (states ! Suc i)))))
         (snd (get_costs trans_cost
                 (filter (\<lambda>(a, w). w \<noteq> Fin 0) (dropna (snd (portfolios ! i))))
                 (st_last_weights (states ! i)) annual_kd)) =
           Some (snd (result ! i), st_last_weights (states ! Suc i)) \<and>
       st_balance (states ! Suc i) = snd (last (snd (result ! i))) \<and>
       st_all_dates_balance (states ! Suc i) = take (Suc i) result \<and>
       (Suc i < length rebalance_dates \<longrightarrow> Suc i < length portfolios \<longrightarrow>
          st_returns_start_date (states ! Suc i) = fst (portfolios ! Suc i)) \<and>
       (\<not> Suc i < length rebalance_dates \<longrightarrow> st_returns_start_date (states ! Suc i) = end_date))"
  proof -
    let ?n = "length rebalance_dates"
    let ?init = "initial_state starting_balance (hd rebalance_dates) sim_price_data"
    from assms have ne: "rebalance_dates \<noteq> []"
      by (auto simp: get_balance_def split: list.splits)
    with assms obtain sf where run:
      "periods portfolios end_date sim_price_data trans_cost annual_kd ?n [0..<?n] ?init = Inr sf"
      and res: "result = st_all_dates_balance sf"
      by (auto simp: get_balance_def split: list.splits sum.splits)
    have "map fst (st_all_dates_balance ?init) = [0..<0]" by (simp add: initial_state_def)
    from periods_trace [OF run this] res obtain states where t:
      "length states = Suc (length result)" "states ! 0 = ?init"
      "0 + length result \<le> max 0 ?n"
      and brk: "0 + length result = max 0 ?n \<or>
        0 + length result < ?n \<and>
        (\<exists>s'. period portfolios end_date sim_price_data trans_cost annual_kd ?n (0 + length result)
                (states ! length result) = Inr (Break s'))"
      and t4:
      "\<forall>j < length result.
         period portfolios end_date sim_price_data trans_cost annual_kd ?n (0 + j) (states ! j) =
           Inr (Continue (states ! Suc j)) \<and>
         map fst (st_all_dates_balance (states ! j)) = [0..<0 + j] \<and>
         st_all_dates_balance (states ! Suc j) = st_all_dates_balance (states ! j) @ [result ! j]"
      by (auto simp: initial_state_def)
    have prefix: "j \<le> length result \<Longrightarrow> st_all_dates_balance (states ! j) = take j result" for j
    proof (induction j)
      case 0
      with t(2) show ?case by (simp add: initial_state_def)
    next
      case (Suc j)
      then have "j < length result" by simp
      with t4 Suc show ?case by (simp add: take_Suc_conv_app_nth)
    qed
    have step: "\<exists>sel.
         select_columns sim_price_data
           (map fst (filter (\<lambda>(a, w). w \<noteq> Fin 0) (dropna (snd (portfolios ! i))))) = Some sel \<and>
         port_balance_calc (filter (\<lambda>(a, w). w \<noteq> Fin 0) (dropna (snd (portfolios ! i))))
           (get_net_balance (st_balance (states ! i))
              (fst (get_costs trans_cost
                      (filter (\<lambda>(a, w). w \<noteq> Fin 0) (dropna (snd (portfolios ! i))))
                      (st_last_weights (states ! i)) annual_kd)))
           (frame_dropna (frame_pct_change
              (loc_slice sel (st_returns_start_date (states ! i))
                 (st_returns_start_date (states ! Suc i)))))
           (snd (get_costs trans_cost
                   (filter (\<lambda>(a, w). w \<noteq> Fin 0) (dropna (snd (portfolios ! i))))
                   (st_last_weights (states ! i)) annual_kd)) =
             Some (snd (result ! i), st_last_weights (states ! Suc i)) \<and>
         st_balance (states ! Suc i) = snd (last (snd (result ! i))) \<and>
         st_all_dates_balance (states ! Suc i) = take (Suc i) result \<and>
         (Suc i < ?n \<longrightarrow> Suc i < length portfolios \<longrightarrow>
            st_returns_start_date (states ! Suc i) = fst (portfolios ! Suc i)) \<and>
         (\<not> Suc i < ?n \<longrightarrow> st_returns_start_date (states ! Suc i) = end_date) \<and>
         fst (result ! i) = i"
      if i: "i < length result" for i
    proof -
      from t4 i have p: "period portfolios end_date sim_price_data trans_cost annual_kd ?n i
          (states ! i) = Inr (Continue (states ! Suc i))"
        and keys: "map fst (st_all_dates_balance (states ! i)) = [0..<i]"
        and app: "st_all_dates_balance (states ! Suc i) =
          st_all_dates_balance (states ! i) @ [result ! i]"
        by simp_all
      from keys have fresh: "i \<notin> fst ` set (st_all_dates_balance (states ! i))"
        by (metis atLeastLessThan_iff less_irrefl set_map set_upt)
      from period_Continue [OF p] obtain sel traj where c:
        "select_columns sim_price_data
           (map fst (filter (\<lambda>(a, w). w \<noteq> Fin 0) (dropna (snd (portfolios ! i))))) = Some sel"
        "port_balance_calc (filter (\<lambda>(a, w). w \<noteq> Fin 0) (dropna (snd (portfolios ! i))))
           (get_net_balance (st_balance (states ! i))
              (fst (get_costs trans_cost
                      (filter (\<lambda>(a, w). w \<noteq> Fin 0) (dropna (snd (portfolios ! i))))
                      (st_last_weights (states ! i)) annual_kd)))
           (frame_dropna (frame_pct_change
              (loc_slice sel (st_returns_start_date (states ! i))
                 (st_returns_start_date (states ! Suc i)))))
           (snd (get_costs trans_cost
                   (filter (\<lambda>(a, w). w \<noteq> Fin 0) (dropna (snd (portfolios ! i))))
                   (st_last_weights (states ! i)) annual_kd)) =
             Some (traj, st_last_weights (states ! Suc i))"
        "st_balance (states ! Suc i) = snd (last traj)"
        "st_all_dates_balance (states ! Suc i) = dict_set (st_all_dates_balance (states ! i)) i traj"
        "i + 1 < ?n \<longrightarrow> i + 1 < length portfolios \<longrightarrow>
           st_returns_start_date (states ! Suc i) = fst (portfolios ! (i + 1))"
        "\<not> i + 1 < ?n \<longrightarrow> st_returns_start_date (states ! Suc i) = end_date"
        by blast
      from c(4) app have r: "result ! i = (i, traj)" by (simp add: dict_set_fresh [OF fresh])
      from i have "st_all_dates_balance (states ! Suc i) = take (Suc i) result"
        by (intro prefix) simp
      with c r show ?thesis by simp
    qed
    have "length (map fst result) = length [0..<length result]" by simp
    moreover have "map fst result ! i = [0..<length result] ! i" if "i < length (map fst result)" for i
    proof -
      from that have i: "i < length result" by simp
      from step [OF i] have "fst (result ! i) = i" by blast
      with i show ?thesis by simp
    qed
    ultimately have keys: "map fst result = [0..<length result]" by (rule nth_equalityI)
    from t(3) have len: "length result \<le> ?n" by simp
    have count: "length result = ?n \<or>
        Suc (length result) = ?n \<and> st_returns_start_date (states ! length result) = end_date"
    proof (cases "length result = ?n")
      case True
      then show ?thesis by simp
    next
      case False
      with brk obtain s' where lt: "length result < ?n"
        and b: "period portfolios end_date sim_price_data trans_cost annual_kd ?n (length result)
          (states ! length result) = Inr (Break s')" by auto
      from period_Break_last [OF b] lt show ?thesis by simp
    qed
    from step have "\<forall>i < length result. \<exists>sel.
         select_columns sim_price_data
           (map fst (filter (\<lambda>(a, w). w \<noteq> Fin 0) (dropna (snd (portfolios ! i))))) = Some sel \<and>
         port_balance_calc (filter (\<lambda>(a, w). w \<noteq> Fin 0) (dropna (snd (portfolios ! i))))
           (get_net_balance (st_balance (states ! i))
              (fst (get_costs trans_cost
                      (filter (\<lambda>(a, w). w \<noteq> Fin 0) (dropna (snd (portfolios ! i))))
                      (st_last_weights (states ! i)) annual_kd)))
           (frame_dropna (frame_pct_change
              (loc_slice sel (st_returns_start_date (states ! i))
                 (st_returns_start_date (states ! Suc i)))))
           (snd (get_costs trans_cost
                   (filter (\<lambda>(a, w). w \<noteq> Fin 0) (dropna (snd (portfolios ! i))))
                   (st_last_weights (states ! i)) annual_kd)) =
             Some (snd (result ! i), st_last_weights (states ! Suc i)) \<and>
         st_balance (states ! Suc i) = snd (last (snd (result ! i))) \<and>
         st_all_dates_balance (states ! Suc i) = take (Suc i) result \<and>
         (Suc i < ?n \<longrightarrow> Suc i < length portfolios \<longrightarrow>
            st_returns_start_date (states ! Suc i) = fst (portfolios ! Suc i)) \<and>
         (\<not> Suc i < ?n \<longrightarrow> st_returns_start_date (states ! Suc i) = end_date)"
      by blast
    moreover from t(2) have "states ! 0 =
        \<lparr>st_balance = starting_balance,
         st_last_weights = map (\<lambda>a. (a, Fin 0)) (columns sim_price_data),
         st_returns_start_date = hd rebalance_dates,
         st_date_to = None,
         st_all_dates_balance = []\<rparr>" by (simp add: initial_state_def)
    ultimately show ?thesis using t(1) ne keys len count by blast
  qed
next
  fix states
  let ?n = "length rebalance_dates"
  assume a: "rebalance_dates \<noteq> [] \<and>
      states ! 0 =
        \<lparr>st_balance = starting_balance,
         st_last_weights = map (\<lambda>a. (a, Fin 0)) (columns sim_price_data),
         st_returns_start_date = hd rebalance_dates,
         st_date_to = None,
         st_all_dates_balance = []\<rparr> \<and>
      (\<forall>i < length rebalance_dates.
         period portfolios end_date sim_price_data trans_cost annual_kd (length rebalance_dates) i
           (states ! i) = Inr (Continue (states ! Suc i)))"
  then have init: "states ! 0 = initial_state starting_balance (hd rebalance_dates) sim_price_data"
    by (simp add: initial_state_def)
  from a have steps: "\<forall>j < ?n. period portfolios end_date sim_price_data trans_cost annual_kd ?n
      (0 + j) (states ! j) = Inr (Continue (states ! Suc j))" by simp
  from periods_run [OF steps, of ?n] have
    "periods portfolios end_date sim_price_data trans_cost annual_kd ?n [0..<?n] (states ! 0) =
       Inr (states ! ?n)" by simp
  with a init show "get_balance starting_balance rebalance_dates portfolios end_date sim_price_data
        trans_cost annual_kd = Inr (st_all_dates_balance (states ! length rebalance_dates))"
    by (cases rebalance_dates) (simp_all add: get_balance_def)
next
  fix states s'
  let ?n = "length rebalance_dates"
  assume a: "rebalance_dates \<noteq> [] \<and>
      states ! 0 =
        \<lparr>st_balance = starting_balance,
         st_last_weights = map (\<lambda>a. (a, Fin 0)) (columns sim_price_data),
         st_returns_start_date = hd rebalance_dates,
         st_date_to = None,
         st_all_dates_balance = []\<rparr> \<and>
      (\<forall>i < length rebalance_dates - 1.
         period portfolios end_date sim_price_data trans_cost annual_kd (length rebalance_dates) i
           (states ! i) = Inr (Continue (states ! Suc i))) \<and>
      period portfolios end_date sim_price_data trans_cost annual_kd (length rebalance_dates)
        (length rebalance_dates - 1) (states ! (length rebalance_dates - 1)) = Inr (Break s')"
  then have init: "states ! 0 = initial_state starting_balance (hd rebalance_dates) sim_price_data"
    by (simp add: initial_state_def)
  from a have pos: "0 < ?n" by simp
  from a have steps: "\<forall>j < ?n - 1. period portfolios end_date sim_price_data trans_cost annual_kd ?n
      (0 + j) (states ! j) = Inr (Continue (states ! Suc j))" by simp
  from a have b: "period portfolios end_date sim_price_data trans_cost annual_kd ?n (?n - 1)
      (states ! (?n - 1)) = Inr (Break s')" by simp
  from pos have upt: "[?n - 1..<?n] = [?n - 1]" by (simp add: upt_conv_Cons)
  from periods_run [OF steps, of ?n] have
    "periods portfolios end_date sim_price_data trans_cost annual_kd ?n [0..<?n] (states ! 0) =
     periods portfolios end_date sim_price_data trans_cost annual_kd ?n [?n - 1..<?n]
       (states ! (?n - 1))" by simp
  with b upt have "periods portfolios end_date sim_price_data trans_cost annual_kd ?n [0..<?n]
      (states ! 0) = Inr s'" by simp
  with a init period_Break [OF b]
  show "get_balance starting_balance rebalance_dates portfolios end_date sim_price_data
        trans_cost annual_kd =
        Inr (st_all_dates_balance (states ! (length rebalance_dates - 1)))"
    by (cases rebalance_dates) (simp_all add: get_balance_def)
qed

theorem get_balance_fold_witness:
  "get_balance (Fin 1000) [0, 2]
     [(0, [(''A'', Fin 1), (''B'', NaN)]), (2, [(''A'', Fin 0), (''B'', Fin 1)])] 4
     \<lparr>columns = [''A'', ''B''],
      rows = [(0, [Fin 100, Fin 100]), (1, [Fin 100, Fin 100]), (2, [Fin 100, Fin 100]),
              (3, [Fin 100, Fin 100]), (4, [Fin 100, Fin 100])]\<rparr>
     (Fin (1 / 100)) (Fin 0) =
     Inr [(0, [(1, Fin 990), (2, Fin 990)]), (1, [(3, Fin (4851 / 5)), (4, Fin (4851 / 5))])] \<and>
   (\<exists>states :: loop_state list. length states = 3 \<and>
      st_balance (states ! 0) = Fin 1000 \<and> st_returns_start_date (states ! 0) = 0 \<and>
      st_last_weights (states ! 0) = [(''A'', Fin 0), (''B'', Fin 0)] \<and>
      st_balance (states ! Suc 0) = Fin 990 \<and> st_returns_start_date (states ! Suc 0) = 2 \<and>
      st_balance (states ! Suc (Suc 0)) = Fin (4851 / 5) \<and>
      st_returns_start_date (states ! Suc (Suc 0)) = 4) \<and>
   get_balance (Fin 1000) [4]
     [(0, [(''A'', Fin 1), (''B'', NaN)]), (2, [(''A'', Fin 0), (''B'', Fin 1)])] 4
     \<lparr>columns = [''A'', ''B''],
      rows = [(0, [Fin 100, Fin 100]), (1, [Fin 100, Fin 100]), (2, [Fin 100, Fin 100]),
              (3, [Fin 100, Fin 100]), (4, [Fin 100, Fin 100])]\<rparr>
     (Fin (1 / 100)) (Fin 0) = Inr []"
proof -
  let ?P = "[(0, [(''A'', Fin 1), (''B'', NaN)]), (2::int, [(''A'', Fin 0), (''B'', Fin 1)])]"
  let ?S = "\<lparr>columns = [''A'', ''B''],
      rows = [(0, [Fin 100, Fin 100]), (1, [Fin 100, Fin 100]), (2, [Fin 100, Fin 100]),
              (3, [Fin 100, Fin 100]), (4, [Fin 100, Fin 100])]\<rparr>"
  let ?R = "[(0::nat, [(1::int, Fin 990), (2, Fin 990)]),
             (Suc 0, [(3, Fin (4851 / 5)), (4, Fin (4851 / 5))])]"
  let ?s0 = "\<lparr>st_balance = Fin 1000, st_last_weights = [(''A'', Fin 0), (''B'', Fin 0)],
        st_returns_start_date = 0, st_date_to = None, st_all_dates_balance = []\<rparr>"
  let ?s1 = "\<lparr>st_balance = Fin 990, st_last_weights = [(''A'', Fin 1)],
        st_returns_start_date = 2, st_date_to = Some 2,
        st_all_dates_balance = [(0, [(1, Fin 990), (2, Fin 990)])]\<rparr>"
  let ?s2 = "\<lparr>st_balance = Fin (4851 / 5), st_last_weights = [(''B'', Fin 1)],
        st_returns_start_date = 4, st_date_to = Some 4,
        st_all_dates_balance = ?R\<rparr>"
  let ?s4 = "\<lparr>st_balance = Fin 1000, st_last_weights = [(''A'', Fin 0), (''B'', Fin 0)],
        st_returns_start_date = 4, st_date_to = None, st_all_dates_balance = []\<rparr>"
  have p0: "period ?P 4 ?S (Fin (1 / 100)) (Fin 0) (Suc (Suc 0)) 0 ?s0 = Inr (Continue ?s1)"
    by (simp add: model_defs)
  have p1: "period ?P 4 ?S (Fin (1 / 100)) (Fin 0) (Suc (Suc 0)) (Suc 0) ?s1 = Inr (Continue ?s2)"
    by (simp add: model_defs)
  have pb: "period ?P 4 ?S (Fin (1 / 100)) (Fin 0) (Suc 0) 0 ?s4 =
      Inr (Break (?s4\<lparr>st_date_to := Some 4\<rparr>))"
    by (simp add: model_defs)
  note run = get_balance_fold [where starting_balance = "Fin 1000" and rebalance_dates = "[0, 2]"
      and portfolios = ?P and end_date = 4 and sim_price_data = ?S
      and trans_cost = "Fin (1 / 100)" and annual_kd = "Fin 0" and result = ?R]
  note stop = get_balance_fold [where starting_balance = "Fin 1000" and rebalance_dates = "[4]"
      and portfolios = ?P and end_date = 4 and sim_price_data = ?S
      and trans_cost = "Fin (1 / 100)" and annual_kd = "Fin 0" and result = "[]"]
  have h: "get_balance (Fin 1000) [0, 2] ?P 4 ?S (Fin (1 / 100)) (Fin 0) = Inr ?R"
    using run [THEN conjunct2, THEN conjunct1, THEN spec [where x = "[?s0, ?s1, ?s2]"]]
    by (simp add: less_Suc_eq all_conj_distrib p0 p1)
  have e: "get_balance (Fin 1000) [4] ?P 4 ?S (Fin (1 / 100)) (Fin 0) = Inr []"
    using stop [THEN conjunct2, THEN conjunct2, THEN spec [where x = "[?s4]"],
        THEN spec [where x = "?s4\<lparr>st_date_to := Some 4\<rparr>"]]
    by (simp add: pb)
  from run [THEN conjunct1, THEN mp, OF h] obtain states where
    a: "length states = Suc (length ?R)"
    and b: "states ! 0 = \<lparr>st_balance = Fin 1000,
       st_last_weights = map (\<lambda>a. (a, Fin 0)) (columns ?S),
       st_returns_start_date = hd [0, 2],
       st_date_to = None,
       st_all_dates_balance = []\<rparr>"
    and c: "\<forall>i < length ?R.
      st_balance (states ! Suc i) = snd (last (snd (?R ! i))) \<and>
      (Suc i < length [0::int, 2] \<longrightarrow> Suc i < length ?P \<longrightarrow>
          st_returns_start_date (states ! Suc i) = fst (?P ! Suc i)) \<and>
       (\<not> Suc i < length [0::int, 2] \<longrightarrow> st_returns_start_date (states ! Suc i) = 4)"
    by blast
  from c [rule_format, of 0] have c0: "st_balance (states ! Suc 0) = Fin 990"
    "st_returns_start_date (states ! Suc 0) = 2" by simp_all
  from c [rule_format, of "Suc 0"] have c1: "st_balance (states ! Suc (Suc 0)) = Fin (4851 / 5)"
    "st_returns_start_date (states ! Suc (Suc 0)) = 4" by simp_all
  from a have a': "length states = 3" by simp
  from b have b': "st_balance (states ! 0) = Fin 1000" "st_returns_start_date (states ! 0) = 0"
    "st_last_weights (states ! 0) = [(''A'', Fin 0), (''B'', Fin 0)]" by simp_all
  from a' b' c0 c1 have "\<exists>states :: loop_state list. length states = 3 \<and>
      st_balance (states ! 0) = Fin 1000 \<and> st_returns_start_date (states ! 0) = 0 \<and>
      st_last_weights (states ! 0) = [(''A'', Fin 0), (''B'', Fin 0)] \<and>
      st_balance (states ! Suc 0) = Fin 990 \<and> st_returns_start_date (states ! Suc 0) = 2 \<and>
      st_balance (states ! Suc (Suc 0)) = Fin (4851 / 5) \<and>
      st_returns_start_date (states ! Suc (Suc 0)) = 4"
    by blast
  with h e show ?thesis by simp
qed

section \<open>Ending weights\<close>

lemma fdiv_zero: "fdiv x (Fin 0) = NaN \<or> fdiv x (Fin 0) = PInf \<or> fdiv x (Fin 0) = NInf"
  by (cases x) (auto simp: signed_inf_def)

text \<open>
  Claim C3.  In a period with a weight that is not NaN and a returns table with rows, the
  ending weights are the last row of the NAV table, each value divided by the last value
  of the trajectory.  Nothing guards the division: when that last value is 0 the call
  still returns, and every ending weight is NaN or an infinity.  The loop stores the
  ending weights of a period as they are, and the costs of the next period are computed
  by \<open>get_costs\<close> from exactly these weights.
\<close>

theorem ending_weights_division:
  "((\<exists>(a, w) \<in> set portfolio_weights. \<not> isna w) \<and> rows date_filtered_returns \<noteq> [] \<longrightarrow>
      (\<exists>traj final_portfolio.
         port_balance_calc portfolio_weights balance date_filtered_returns (Some kd) =
           Some (traj, final_portfolio) \<and>
         final_portfolio =
           map (\<lambda>(a, x). (a, fdiv x (snd (last traj))))
             (zip (columns (position_NAV portfolio_weights balance date_filtered_returns))
                (snd (last (rows (position_NAV portfolio_weights balance date_filtered_returns))))) \<and>
         (snd (last traj) = Fin 0 \<longrightarrow>
            list_all (\<lambda>(a, x). x = NaN \<or> x = PInf \<or> x = NInf) final_portfolio))) \<and>
   (period portfolios end_date sim_price_data trans_cost annual_kd n reb_n s = Inr (Continue s') \<and>
    period portfolios end_date sim_price_data trans_cost annual_kd n (Suc reb_n) s' =
      Inr (Continue s'') \<longrightarrow>
      (\<exists>df traj df' traj'.
         port_balance_calc (filter (\<lambda>(a, w). w \<noteq> Fin 0) (dropna (snd (portfolios ! reb_n))))
           (get_net_balance (st_balance s)
              (fst (get_costs trans_cost
                      (filter (\<lambda>(a, w). w \<noteq> Fin 0) (dropna (snd (portfolios ! reb_n))))
                      (st_last_weights s) annual_kd)))
           df
           (snd (get_costs trans_cost
                   (filter (\<lambda>(a, w). w \<noteq> Fin 0) (dropna (snd (portfolios ! reb_n))))
                   (st_last_weights s) annual_kd)) = Some (traj, st_last_weights s') \<and>
         port_balance_calc (filter (\<lambda>(a, w). w \<noteq> Fin 0) (dropna (snd (portfolios ! Suc reb_n))))
           (get_net_balance (st_balance s')
              (fst (get_costs trans_cost
                      (filter (\<lambda>(a, w). w \<noteq> Fin 0) (dropna (snd (portfolios ! Suc reb_n))))
                      (st_last_weights s') annual_kd)))
           df'
           (snd (get_costs trans_cost
                   (filter (\<lambda>(a, w). w \<noteq> Fin 0) (dropna (snd (portfolios ! Suc reb_n))))
                   (st_last_weights s') annual_kd)) = Some (traj', st_last_weights s'')))"
proof (intro conjI impI)
  assume "(\<exists>(a, w) \<in> set portfolio_weights. \<not> isna w) \<and> rows date_filtered_returns \<noteq> []"
  then have a: "\<exists>(a, w) \<in> set portfolio_weights. \<not> isna w" "rows date_filtered_returns \<noteq> []"
    by simp_all
  have z: "list_all (\<lambda>(a, x). x = NaN \<or> x = PInf \<or> x = NInf)
      (map (\<lambda>(a, x). (a, fdiv x (Fin 0))) xs)" for xs :: "asset series"
    using fdiv_zero by (induction xs) auto
  show "\<exists>traj final_portfolio.
         port_balance_calc portfolio_weights balance date_filtered_returns (Some kd) =
           Some (traj, final_portfolio) \<and>
         final_portfolio =
           map (\<lambda>(a, x). (a, fdiv x (snd (last traj))))
             (zip (columns (position_NAV portfolio_weights balance date_filtered_returns))
                (snd (last (rows (position_NAV portfolio_weights balance date_filtered_returns))))) \<and>
         (snd (last traj) = Fin 0 \<longrightarrow>
            list_all (\<lambda>(a, x). x = NaN \<or> x = PInf \<or> x = NInf) final_portfolio)"
    by (simp add: port_balance_calc_normal [OF a] Let_def z)
next
  assume "period portfolios end_date sim_price_data trans_cost annual_kd n reb_n s =
      Inr (Continue s') \<and>
    period portfolios end_date sim_price_data trans_cost annual_kd n (Suc reb_n) s' =
      Inr (Continue s'')"
  then have p: "period portfolios end_date sim_price_data trans_cost annual_kd n reb_n s =
      Inr (Continue s')"
    and q: "period portfolios end_date sim_price_data trans_cost annual_kd n (Suc reb_n) s' =
      Inr (Continue s'')" by simp_all
  from period_Continue [OF p] period_Continue [OF q]
  show "\<exists>df traj df' traj'.
         port_balance_calc (filter (\<lambda>(a, w). w \<noteq> Fin 0) (dropna (snd (portfolios ! reb_n))))
           (get_net_balance (st_balance s)
              (fst (get_costs trans_cost
                      (filter (\<lambda>(a, w). w \<noteq> Fin 0) (dropna (snd (portfolios ! reb_n))))
                      (st_last_weights s) annual_kd)))
           df
           (snd (get_costs trans_cost
                   (filter (\<lambda>(a, w). w \<noteq> Fin 0) (dropna (snd (portfolios ! reb_n))))
                   (st_last_weights s) annual_kd)) = Some (traj, st_last_weights s') \<and>
         port_balance_calc (filter (\<lambda>(a, w). w \<noteq> Fin 0) (dropna (snd (portfolios ! Suc reb_n))))
           (get_net_balance (st_balance s')
              (fst (get_costs trans_cost
                      (filter (\<lambda>(a, w). w \<noteq> Fin 0) (dropna (snd (portfolios ! Suc reb_n))))
                      (st_last_weights s') annual_kd)))
           df'
           (snd (get_costs trans_cost
                   (filter (\<lambda>(a, w). w \<noteq> Fin 0) (dropna (snd (portfolios ! Suc reb_n))))
                   (st_last_weights s') annual_kd)) = Some (traj', st_last_weights s'')"
    by blast
qed

theorem ending_weights_division_witness:
  "\<not> isna (Fin 1) \<and>
   rows \<lparr>columns = [''A'', ''B''], rows = [(1, [Fin 0, Fin 0])]\<rparr> \<noteq> [] \<and>
   port_balance_calc [(''A'', Fin 1), (''B'', Fin (- 1))] (Fin 980)
       \<lparr>columns = [''A'', ''B''], rows = [(1, [Fin 0, Fin 0])]\<rparr> (Some (Fin 0)) =
     Some ([(1, Fin 0)], [(''A'', PInf), (''B'', NInf)]) \<and>
   period [(0, [(''A'', Fin 1), (''B'', Fin (- 1))]), (2, [(''A'', Fin 1), (''B'', NaN)])] 4
       \<lparr>columns = [''A'', ''B''],
        rows = [(0, [Fin 100, Fin 100]), (1, [Fin 100, Fin 100]), (2, [Fin 100, Fin 100]),
                (3, [Fin 100, Fin 100]), (4, [Fin 100, Fin 100])]\<rparr>
       (Fin (1 / 100)) (Fin 0) (Suc (Suc 0)) 0
       \<lparr>st_balance = Fin 1000, st_last_weights = [(''A'', Fin 0), (''B'', Fin 0)],
        st_returns_start_date = 0, st_date_to = None, st_all_dates_balance = []\<rparr> =
     Inr (Continue
       \<lparr>st_balance = Fin 0, st_last_weights = [(''A'', PInf), (''B'', NInf)],
        st_returns_start_date = 2, st_date_to = Some 2,
        st_all_dates_balance = [(0, [(1, Fin 0), (2, Fin 0)])]\<rparr>) \<and>
   period [(0, [(''A'', Fin 1), (''B'', Fin (- 1))]), (2, [(''A'', Fin 1), (''B'', NaN)])] 4
       \<lparr>columns = [''A'', ''B''],
        rows = [(0, [Fin 100, Fin 100]), (1, [Fin 100, Fin 100]), (2, [Fin 100, Fin 100]),
                (3, [Fin 100, Fin 100]), (4, [Fin 100, Fin 100])]\<rparr>
       (Fin (1 / 100)) (Fin 0) (Suc (Suc 0)) (Suc 0)
       \<lparr>st_balance = Fin 0, st_last_weights = [(''A'', PInf), (''B'', NInf)],
        st_returns_start_date = 2, st_date_to = Some 2,
        st_all_dates_balance = [(0, [(1, Fin 0), (2, Fin 0)])]\<rparr> =
     Inr (Continue
       \<lparr>st_balance = Fin 0, st_last_weights = [(''A'', NaN)],
        st_returns_start_date = 4, st_date_to = Some 4,
        st_all_dates_balance = [(0, [(1, Fin 0), (2, Fin 0)]), (Suc 0, [(3, Fin 0), (4, Fin 0)])]\<rparr>) \<and>
   fst (get_costs (Fin (1 / 100)) [(''A'', Fin 1)] [(''A'', PInf), (''B'', NInf)] (Fin 0)) = PInf"
proof -
  let ?P = "[(0, [(''A'', Fin 1), (''B'', Fin (- 1))]), (2::int, [(''A'', Fin 1), (''B'', NaN)])]"
  let ?S = "\<lparr>columns = [''A'', ''B''],
        rows = [(0, [Fin 100, Fin 100]), (1, [Fin 100, Fin 100]), (2, [Fin 100, Fin 100]),
                (3, [Fin 100, Fin 100]), (4, [Fin 100, Fin 100])]\<rparr>"
  let ?s0 = "\<lparr>st_balance = Fin 1000, st_last_weights = [(''A'', Fin 0), (''B'', Fin 0)],
        st_returns_start_date = 0, st_date_to = None, st_all_dates_balance = []\<rparr>"
  let ?s1 = "\<lparr>st_balance = Fin 0, st_last_weights = [(''A'', PInf), (''B'', NInf)],
        st_returns_start_date = 2, st_date_to = Some 2,
        st_all_dates_balance = [(0, [(1, Fin 0), (2, Fin 0)])]\<rparr>"
  let ?s2 = "\<lparr>st_balance = Fin 0, st_last_weights = [(''A'', NaN)],
        st_returns_start_date = 4, st_date_to = Some 4,
        st_all_dates_balance = [(0, [(1, Fin 0), (2, Fin 0)]), (Suc 0, [(3, Fin 0), (4, Fin 0)])]\<rparr>"
  have p0: "period ?P 4 ?S (Fin (1 / 100)) (Fin 0) (Suc (Suc 0)) 0 ?s0 = Inr (Continue ?s1)"
    by (simp add: model_defs)
  have p1: "period ?P 4 ?S (Fin (1 / 100)) (Fin 0) (Suc (Suc 0)) (Suc 0) ?s1 = Inr (Continue ?s2)"
    by (simp add: model_defs)
  have c: "fst (get_costs (Fin (1 / 100)) [(''A'', Fin 1)] [(''A'', PInf), (''B'', NInf)] (Fin 0)) = PInf"
    by (simp add: model_defs)
  have d: "port_balance_calc [(''A'', Fin 1), (''B'', Fin (- 1))] (Fin 980)
       \<lparr>columns = [''A'', ''B''], rows = [(1, [Fin 0, Fin 0])]\<rparr> (Some (Fin 0)) =
     Some ([(1, Fin 0)], [(''A'', PInf), (''B'', NInf)])"
    by (simp add: model_defs)
  note t = ending_weights_division [where portfolio_weights = "[(''A'', Fin 1), (''B'', Fin (- 1))]"
      and balance = "Fin 980"
      and date_filtered_returns = "\<lparr>columns = [''A'', ''B''], rows = [(1, [Fin 0, Fin 0])]\<rparr>"
      and kd = "Fin 0" and portfolios = ?P and end_date = 4 and sim_price_data = ?S
      and trans_cost = "Fin (1 / 100)" and annual_kd = "Fin 0" and n = "Suc (Suc 0)"
      and reb_n = 0 and s = ?s0 and s' = ?s1 and s'' = ?s2]
  from t p0 p1 c d show ?thesis by simp
qed

section \<open>Ruin\<close>

lemma exp_two_ln: "0 < x \<Longrightarrow> exp (2 * ln x) = x * (x::real)"
  using exp_add [of "ln x" "ln x"] by simp

text \<open>
  Claim C1.  Ruin is meant to be permanent: once a value of a trajectory is 0 or below,
  every later value of that trajectory and of the trajectories of the later periods is 0.
  The code does not keep this when the rebalance cost fraction is above 1.  Then
  \<open>get_net_balance\<close> returns a negative starting balance; with short weights the NAV
  table and its row sums are positive, the guard finds nothing, and the leverage branch
  scales its factors by the negative balance.  In the run below (one period, one asset
  held short 60 times the balance, flat prices, a transaction cost of 2 percent and an
  annual cost of debt of 36 percent) the rebalance cost is 1.2, the net balance -200, and
  the trajectory that is returned holds -188 followed by -176.72.
\<close>

theorem get_balance_negative_trajectory:
  "get_balance (Fin 1000) [0] [(0, [(''A'', Fin (- 60))])] 3
     \<lparr>columns = [''A''],
      rows = [(0, [Fin 100]), (1, [Fin 100]), (2, [Fin 100]), (3, [Fin 100])]\<rparr>
     (Fin (1 / 50)) (Fin (9 / 25)) =
   Inr [(0, [(1, NaN), (2, Fin (- 188)), (3, Fin (- 4418 / 25))])]"
  by (simp add: model_defs exp_two_ln)

text \<open>
  The branch for a period without weights has no guard either: it repeats the net
  balance, negative when the cost fraction is above 1, at every date.
\<close>

lemma port_balance_calc_hold_negative:
  "port_balance_calc [] (get_net_balance (Fin 80) (Fin 2))
     \<lparr>columns = [], rows = [(2, []), (3, []), (4, [])]\<rparr> (Some (Fin 0)) =
   Some ([(2, Fin (- 80)), (3, Fin (- 80)), (4, Fin (- 80))], [])"
  by (simp add: model_defs)

text \<open>
  What the code does keep: from a state of the loop whose balance is not above 0 on, every
  period starts from a net balance of 0 and records a trajectory that is 0 at every date.
\<close>

lemma fmul_zero_right_cases: "fmul w (Fin 0) = Fin 0 \<or> fmul w (Fin 0) = NaN"
  by (cases w) (auto simp: signed_inf_def)

lemma fround_fmul_zero:
  "x = Fin 0 \<or> x = NaN \<Longrightarrow> fround 2 (fmul x y) = Fin 0 \<or> fround 2 (fmul x y) = NaN"
  by (cases y) (auto simp: signed_inf_def round_half_even_def)

lemma series_get_zero_balance:
  "series_get (map (\<lambda>(a, w). (a, fmul w (Fin 0))) pw) a = Fin 0 \<or>
   series_get (map (\<lambda>(a, w). (a, fmul w (Fin 0))) pw) a = NaN"
proof (induction pw)
  case Nil
  then show ?case by (simp add: series_get_def)
next
  case (Cons p pw)
  obtain b w where p: "p = (b, w)" by (cases p)
  show ?case
  proof (cases "a = b")
    case True
    with p fmul_zero_right_cases [of w] show ?thesis by (simp add: series_get_def)
  next
    case False
    with p Cons show ?thesis by (simp add: series_get_def)
  qed
qed

lemma sum_skipna_zero: "\<forall>x \<in> set xs. x = Fin 0 \<or> x = NaN \<Longrightarrow> sum_skipna xs = Fin 0"
  by (induction xs) auto

lemma rows_position_NAV:
  "rows (position_NAV pw b df) =
     (let init = map (\<lambda>(a, w). (a, fmul w b)) pw;
          e = frame_map fexp (frame_cumsum (frame_map (\<lambda>x. flog (fadd (Fin 1) x)) df))
      in map (\<lambda>(d, r).
           (d, map (\<lambda>a. fround 2 (fmul (series_get init a) (series_get (zip (columns e) r) a)))
                 (union_index (columns e) (map fst init))))
         (rows e))"
  by (simp add: position_NAV_def Let_def frame_map_def series_mul_frame_def comp_def
      case_prod_unfold)

lemma sum_axis1_zero_balance:
  assumes "(d, v) \<in> set (sum_axis1 (position_NAV pw (Fin 0) df))"
  shows "v = Fin 0"
proof -
  from assms obtain r where r: "(d, r) \<in> set (rows (position_NAV pw (Fin 0) df))"
    and v: "v = sum_skipna r" by (auto simp: sum_axis1_def)
  have nz: "fround 2 (fmul (series_get (map (\<lambda>(a, w). (a, fmul w (Fin 0))) pw) a) y) = Fin 0 \<or>
      fround 2 (fmul (series_get (map (\<lambda>(a, w). (a, fmul w (Fin 0))) pw) a) y) = NaN" for a y
    by (rule fround_fmul_zero [OF series_get_zero_balance])
  from r obtain labels cols r' where
    "r = map (\<lambda>a. fround 2 (fmul (series_get (map (\<lambda>(a, w). (a, fmul w (Fin 0))) pw) a)
           (series_get (zip cols r') a))) labels"
    unfolding rows_position_NAV Let_def by auto
  with nz have "\<forall>x \<in> set r. x = Fin 0 \<or> x = NaN" by auto
  with v show ?thesis by (simp add: sum_skipna_zero)
qed

lemma zero_from_zero:
  "\<forall>(d, v) \<in> set s. v = Fin 0 \<Longrightarrow> \<forall>(d, v) \<in> set (zero_from l s). v = Fin 0"
  by (induction s) (auto split: if_splits)

lemma check_negative_balance_zero:
  assumes "\<forall>(d, v) \<in> set s. v = Fin 0"
  shows "(\<forall>(d, v) \<in> set (fst (check_negative_balance s)). v = Fin 0) \<and>
    (snd (check_negative_balance s) \<longrightarrow> s = [])"
proof -
  have "list_ex (\<lambda>(d, v). fle v (Fin 0)) s" if "s \<noteq> []"
  proof -
    from that obtain d v where p: "(d, v) \<in> set s" by (cases s) auto
    with assms have "fle v (Fin 0)" by auto
    with p show ?thesis by (auto simp: list_ex_iff intro!: bexI [of _ "(d, v)"])
  qed
  with assms zero_from_zero [OF assms] show ?thesis
    by (auto simp: check_negative_balance_def Let_def)
qed

lemma port_balance_calc_zero_balance:
  assumes "port_balance_calc pw (Fin 0) df kd = Some (traj, w)"
  shows "\<forall>(d, v) \<in> set traj. v = Fin 0"
proof (cases "length pw \<noteq> length (filter (\<lambda>(a, w). isna w) pw)")
  case False
  with assms show ?thesis by (auto simp: port_balance_calc_def Let_def)
next
  case True
  let ?s = "sum_axis1 (position_NAV pw (Fin 0) df)"
  have "\<forall>(d, v) \<in> set ?s. v = Fin 0" using sum_axis1_zero_balance by blast
  from check_negative_balance_zero [OF this]
  have z: "\<forall>(d, v) \<in> set (fst (check_negative_balance ?s)). v = Fin 0"
    and e: "snd (check_negative_balance ?s) \<longrightarrow> ?s = []" by simp_all
  from e have e': "snd (check_negative_balance ?s) \<longrightarrow> fst (check_negative_balance ?s) = []"
    by (auto simp: check_negative_balance_def)
  have l: "leverage_adjusted (Fin 0) k [] = []" for k
    by (simp add: leverage_adjusted_def pct_change_def cumsum_def)
  from assms True z e' l show ?thesis
    by (auto simp: port_balance_calc_def Let_def case_prod_unfold split: option.splits if_splits)
qed

lemma get_net_balance_ruined: "\<not> fgt b (Fin 0) \<Longrightarrow> get_net_balance b c = Fin 0"
  by (simp add: get_net_balance_def)

lemma period_ruined:
  assumes "period portfolios end_date sim_price_data trans_cost annual_kd n reb_n s =
      Inr (Continue s')"
    and "\<not> fgt (st_balance s) (Fin 0)"
  shows "\<exists>traj. st_all_dates_balance s' = dict_set (st_all_dates_balance s) reb_n traj \<and>
    (\<forall>(d, v) \<in> set traj. v = Fin 0) \<and> st_balance s' = Fin 0"
proof -
  from period_Continue [OF assms(1)] obtain df traj where c:
    "port_balance_calc (filter (\<lambda>(a, w). w \<noteq> Fin 0) (dropna (snd (portfolios ! reb_n))))
      (get_net_balance (st_balance s)
         (fst (get_costs trans_cost
                 (filter (\<lambda>(a, w). w \<noteq> Fin 0) (dropna (snd (portfolios ! reb_n))))
                 (st_last_weights s) annual_kd)))
      df
      (snd (get_costs trans_cost
              (filter (\<lambda>(a, w). w \<noteq> Fin 0) (dropna (snd (portfolios ! reb_n))))
              (st_last_weights s) annual_kd)) = Some (traj, st_last_weights s')"
    "traj \<noteq> []" "st_balance s' = snd (last traj)"
    "st_all_dates_balance s' = dict_set (st_all_dates_balance s) reb_n traj"
    by blast
  from c(1) have z: "\<forall>(d, v) \<in> set traj. v = Fin 0"
    by (simp only: get_net_balance_ruined [OF assms(2)]) (rule port_balance_calc_zero_balance)
  from c(2) have "last traj \<in> set traj" by simp
  with z have "snd (last traj) = Fin 0" by (auto simp: case_prod_unfold)
  with c(3) c(4) z show ?thesis by auto
qed

lemma set_dict_set: "set (dict_set m k v) \<subseteq> insert (k, v) (set m)"
  by (induction m) (auto split: if_splits)

lemma periods_ruined:
  assumes "periods portfolios end_date sim_price_data trans_cost annual_kd n ns s = Inr sf"
    and "\<not> fgt (st_balance s) (Fin 0)"
  shows "\<forall>e \<in> set (st_all_dates_balance sf).
    e \<in> set (st_all_dates_balance s) \<or> (\<forall>(d, v) \<in> set (snd e). v = Fin 0)"
  using assms
proof (induction ns arbitrary: s)
  case Nil
  then show ?case by simp
next
  case (Cons reb_n ns)
  show ?case
  proof (cases "period portfolios end_date sim_price_data trans_cost annual_kd n reb_n s")
    case (Inl e)
    with Cons.prems show ?thesis by simp
  next
    case (Inr f)
    show ?thesis
    proof (cases f)
      case (Break s')
      with Inr Cons.prems(1) have "sf = s'" by simp
      with period_Break Inr Break show ?thesis by auto
    next
      case (Continue s')
      with Inr have step: "period portfolios end_date sim_price_data trans_cost annual_kd n reb_n s =
        Inr (Continue s')" by simp
      from period_ruined [OF step Cons.prems(2)] obtain traj where t:
        "st_all_dates_balance s' = dict_set (st_all_dates_balance s) reb_n traj"
        "\<forall>(d, v) \<in> set traj. v = Fin 0" "st_balance s' = Fin 0" by blast
      from t(3) have r: "\<not> fgt (st_balance s') (Fin 0)" by (simp add: fgt_def)
      from step Cons.prems(1) have
        "periods portfolios end_date sim_price_data trans_cost annual_kd n ns s' = Inr sf" by simp
      from Cons.IH [OF this r] have ih: "\<forall>e \<in> set (st_all_dates_balance sf).
        e \<in> set (st_all_dates_balance s') \<or> (\<forall>(d, v) \<in> set (snd e). v = Fin 0)" .
      show ?thesis
      proof
        fix e assume "e \<in> set (st_all_dates_balance sf)"
        with ih have "e \<in> set (st_all_dates_balance s') \<or> (\<forall>(d, v) \<in> set (snd e). v = Fin 0)"
          by blast
        moreover have "e = (reb_n, traj) \<or> e \<in> set (st_all_dates_balance s)"
          if "e \<in> set (st_all_dates_balance s')"
          using that t(1) set_dict_set [of "st_all_dates_balance s" reb_n traj] by auto
        ultimately show "e \<in> set (st_all_dates_balance s) \<or> (\<forall>(d, v) \<in> set (snd e). v = Fin 0)"
          using t(2) by auto
      qed
    qed
  qed
qed

end
